theory Spec2Isabelle
  imports Complex_Main
begin

section \<open>JavaScript numbers\<close>

text \<open>
  The scripts \<^verbatim>\<open>synctex-lookup.mjs\<close> and \<^verbatim>\<open>synctex-reverse.mjs\<close> compute with
  JavaScript numbers. A number is modelled as a real number or one of the three special
  values of IEEE 754: the arithmetic is exact (no rounding, overflow or underflow), and the
  sign of a zero is not tracked (a zero divisor counts as \<open>+0\<close>). Comparisons with
  \<open>NaN\<close> are false, as in JavaScript.
\<close>

datatype jsnum = Fin real | PInf | NInf | NaN

fun jneg :: "jsnum \<Rightarrow> jsnum" where
  "jneg (Fin a) = Fin (- a)"
| "jneg PInf = NInf"
| "jneg NInf = PInf"
| "jneg NaN = NaN"

fun jadd :: "jsnum \<Rightarrow> jsnum \<Rightarrow> jsnum" where
  "jadd NaN _ = NaN"
| "jadd _ NaN = NaN"
| "jadd (Fin a) (Fin b) = Fin (a + b)"
| "jadd PInf NInf = NaN"
| "jadd NInf PInf = NaN"
| "jadd PInf _ = PInf"
| "jadd NInf _ = NInf"
| "jadd (Fin a) PInf = PInf"
| "jadd (Fin a) NInf = NInf"

definition jsub :: "jsnum \<Rightarrow> jsnum \<Rightarrow> jsnum" where
  "jsub a b = jadd a (jneg b)"

text \<open>The sign of a number: \<open>1\<close>, \<open>0\<close> or \<open>-1\<close>; \<open>NaN\<close> has none.\<close>

fun jsign :: "jsnum \<Rightarrow> int option" where
  "jsign (Fin a) = Some (if a > 0 then 1 else if a < 0 then - 1 else 0)"
| "jsign PInf = Some 1"
| "jsign NInf = Some (- 1)"
| "jsign NaN = None"

definition inf_of_sign :: "int \<Rightarrow> jsnum" where
  "inf_of_sign s = (if s > 0 then PInf else if s < 0 then NInf else NaN)"

fun jmul :: "jsnum \<Rightarrow> jsnum \<Rightarrow> jsnum" where
  "jmul (Fin a) (Fin b) = Fin (a * b)"
| "jmul a b =
     (case (jsign a, jsign b) of
        (Some s, Some t) \<Rightarrow> inf_of_sign (s * t)
      | _ \<Rightarrow> NaN)"

fun jdiv :: "jsnum \<Rightarrow> jsnum \<Rightarrow> jsnum" where
  "jdiv (Fin a) (Fin b) =
     (if b = 0 then inf_of_sign (if a > 0 then 1 else if a < 0 then - 1 else 0)
      else Fin (a / b))"
| "jdiv (Fin a) PInf = Fin 0"
| "jdiv (Fin a) NInf = Fin 0"
| "jdiv PInf (Fin b) = (if b < 0 then NInf else PInf)"
| "jdiv NInf (Fin b) = (if b < 0 then PInf else NInf)"
| "jdiv _ _ = NaN"

fun jlt :: "jsnum \<Rightarrow> jsnum \<Rightarrow> bool" where
  "jlt NaN _ = False"
| "jlt _ NaN = False"
| "jlt (Fin a) (Fin b) = (a < b)"
| "jlt _ NInf = False"
| "jlt PInf _ = False"
| "jlt NInf _ = True"
| "jlt (Fin a) PInf = True"

fun jge :: "jsnum \<Rightarrow> jsnum \<Rightarrow> bool" where
  "jge NaN _ = False"
| "jge _ NaN = False"
| "jge (Fin a) (Fin b) = (a \<ge> b)"
| "jge _ NInf = True"
| "jge PInf _ = True"
| "jge NInf _ = False"
| "jge (Fin a) PInf = False"

text \<open>Truthiness of a number: \<open>0\<close> and \<open>NaN\<close> are falsy.\<close>

fun truthy :: "jsnum \<Rightarrow> bool" where
  "truthy (Fin a) = (a \<noteq> 0)"
| "truthy NaN = False"
| "truthy _ = True"

text \<open>\<^verbatim>\<open>a || b\<close> on numbers.\<close>

definition jor :: "jsnum \<Rightarrow> jsnum \<Rightarrow> jsnum" where
  "jor a b = (if truthy a then a else b)"

text \<open>
  \<^verbatim>\<open>xs[k]\<close> for an array and a number: the element when \<open>k\<close> is an integer in
  \<open>0 \<dots> length - 1\<close>, and \<^verbatim>\<open>undefined\<close> (here \<open>None\<close>) for every other number.
\<close>

fun js_index :: "'a list \<Rightarrow> jsnum \<Rightarrow> 'a option" where
  "js_index xs (Fin k) =
     (if k = of_int \<lfloor>k\<rfloor> \<and> 0 \<le> k \<and> k < real (length xs) then Some (xs ! nat \<lfloor>k\<rfloor>)
      else None)"
| "js_index xs _ = None"

section \<open>Page geometry\<close>

text \<open>
  The object pushed by \<^verbatim>\<open>getPageDimensions\<close> of \<^verbatim>\<open>synctex-reverse.mjs\<close>; the one
  of \<^verbatim>\<open>synctex-lookup.mjs\<close> has two more fields. The fields \<^verbatim>\<open>top\<close> and
  \<^verbatim>\<open>bottom\<close> are \<open>topY\<close> and \<open>bottomY\<close> here.
\<close>

record page =
  pageNum :: nat
  origWidth :: jsnum
  origHeight :: jsnum
  viewBoxMinX :: jsnum
  viewBoxMinY :: jsnum
  scale :: jsnum
  topY :: jsnum
  bottomY :: jsnum

record page_scaled = page +
  scaledWidth :: jsnum
  scaledHeight :: jsnum

text \<open>
  The exceptions that end the scripts. \<^verbatim>\<open>Page p not found\<close> is thrown by
  \<^verbatim>\<open>pdfToTldrawCoords\<close>; the others are thrown by the language or its library.
\<close>

datatype jserror =
    TypeError  \<comment> \<open>reading \<^verbatim>\<open>top\<close> of \<^verbatim>\<open>undefined\<close>\<close>
  | PageNotFound jsnum  \<comment> \<open>\<^verbatim>\<open>new Error(`Page ${pageNum} not found`)\<close>\<close>
  | NullTypeError  \<comment> \<open>reading a property of \<^verbatim>\<open>null\<close>\<close>
  | ToFixedTypeError  \<comment> \<open>\<^verbatim>\<open>v.toFixed(0)\<close> for a \<open>v\<close> that is not a number\<close>
  | SyntaxError  \<comment> \<open>\<^verbatim>\<open>JSON.parse\<close> of a text that is not JSON\<close>
  | ReadError  \<comment> \<open>\<^verbatim>\<open>fs.readFileSync\<close> of a file that cannot be read\<close>

section \<open>Canvas to document (\<^verbatim>\<open>synctex-lookup.mjs\<close>)\<close>

text \<open>The loop of \<^verbatim>\<open>findPageForY\<close>: the first page with \<^verbatim>\<open>y >= top && y < bottom\<close>.\<close>

fun scanPages :: "'a page_scheme list \<Rightarrow> jsnum \<Rightarrow> 'a page_scheme option" where
  "scanPages [] y = None"
| "scanPages (p # ps) y =
     (if jge y (topY p) \<and> jlt y (bottomY p) then Some p else scanPages ps y)"

definition findPageForY :: "'a page_scheme list \<Rightarrow> jsnum \<Rightarrow> 'a page_scheme option" where
  "findPageForY pages y =
     (case scanPages pages y of
        Some p \<Rightarrow> Some p
      | None \<Rightarrow> js_index pages (jsub (Fin (real (length pages))) (Fin 1)))"

record coords =
  c_page :: nat
  pdfX :: jsnum
  pdfY :: jsnum
  localX :: jsnum
  localY :: jsnum
  c_origWidth :: jsnum
  c_origHeight :: jsnum

definition tldrawToPdfCoords :: "'a page_scheme list \<Rightarrow> jsnum \<Rightarrow> jsnum \<Rightarrow> jserror + coords" where
  "tldrawToPdfCoords pages tlX tlY =
     (case findPageForY pages tlY of
        None \<Rightarrow> Inl TypeError
      | Some p \<Rightarrow>
          (let lx = tlX;
               ly = jsub tlY (topY p)
           in Inr \<lparr>c_page = pageNum p,
                   pdfX = jadd (jdiv lx (scale p)) (viewBoxMinX p),
                   pdfY = jadd (jdiv ly (scale p)) (viewBoxMinY p),
                   localX = lx,
                   localY = ly,
                   c_origWidth = origWidth p,
                   c_origHeight = origHeight p\<rparr>))"

section \<open>Document to canvas (\<^verbatim>\<open>synctex-reverse.mjs\<close>)\<close>

record tlcoords =
  tldrawX :: jsnum
  tldrawY :: jsnum
  t_page :: jsnum

definition pdfToTldrawCoords ::
  "'a page_scheme list \<Rightarrow> jsnum \<Rightarrow> jsnum \<Rightarrow> jsnum \<Rightarrow> jserror + tlcoords" where
  "pdfToTldrawCoords pages pn px py =
     (case js_index pages (jsub pn (Fin 1)) of
        None \<Rightarrow> Inl (PageNotFound pn)
      | Some p \<Rightarrow>
          (let lx = jmul (jsub px (viewBoxMinX p)) (scale p);
               ly = jmul (jsub py (viewBoxMinY p)) (scale p)
           in Inr \<lparr>tldrawX = lx, tldrawY = jadd (topY p) ly, t_page = pn\<rparr>))"

section \<open>Strings and the built-in parsers\<close>

text \<open>
  A string is a list of characters; the model covers ASCII text. The character classes are
  those of the regular expressions in the scripts: \<^verbatim>\<open>[0-9]\<close>, \<^verbatim>\<open>\s\<close>,
  \<^verbatim>\<open>['"]\<close>, \<^verbatim>\<open>[0-9.]\<close> and \<^verbatim>\<open>\w\<close>.
\<close>

definition is_digit :: "char \<Rightarrow> bool" where
  "is_digit c = (let n = (of_char c :: nat) in 48 \<le> n \<and> n \<le> 57)"

definition is_space :: "char \<Rightarrow> bool" where
  "is_space c = (let n = (of_char c :: nat) in (9 \<le> n \<and> n \<le> 13) \<or> n = 32)"

definition is_quote :: "char \<Rightarrow> bool" where
  "is_quote c = (c = CHR 0x27 \<or> c = CHR 0x22)"

definition is_numchar :: "char \<Rightarrow> bool" where
  "is_numchar c = (is_digit c \<or> c = CHR ''.'')"

definition is_word :: "char \<Rightarrow> bool" where
  "is_word c =
     (let n = (of_char c :: nat)
      in (48 \<le> n \<and> n \<le> 57) \<or> (65 \<le> n \<and> n \<le> 90) \<or> (97 \<le> n \<and> n \<le> 122) \<or> n = 95)"

definition is_hexdigit :: "char \<Rightarrow> bool" where
  "is_hexdigit c =
     (let n = (of_char c :: nat)
      in (48 \<le> n \<and> n \<le> 57) \<or> (65 \<le> n \<and> n \<le> 70) \<or> (97 \<le> n \<and> n \<le> 102))"

definition digit_val :: "char \<Rightarrow> nat" where
  "digit_val c =
     (let n = (of_char c :: nat)
      in if n \<le> 57 then n - 48 else if n \<le> 70 then n - 55 else n - 87)"

definition digits_val :: "nat \<Rightarrow> string \<Rightarrow> nat" where
  "digits_val radix ds = foldl (\<lambda>acc c. radix * acc + digit_val c) 0 ds"

text \<open>
  \<^verbatim>\<open>toLowerCase\<close> on ASCII text: a letter \<open>A\<close> to \<open>Z\<close> (codes 65 to 90) becomes the
  character whose code is 32 more, which is the same character with bit 5 set.
\<close>

definition lower_char :: "char \<Rightarrow> char" where
  "lower_char c =
     (let n = (of_char c :: nat)
      in if 65 \<le> n \<and> n \<le> 90
         then (case c of Char b0 b1 b2 b3 b4 b5 b6 b7 \<Rightarrow> Char b0 b1 b2 b3 b4 True b6 b7)
         else c)"

definition toLowerCase :: "string \<Rightarrow> string" where
  "toLowerCase s = map lower_char s"

text \<open>\<^verbatim>\<open>s.split(/\s+/)\<close>: the pieces between the runs of white space.\<close>

function split_ws :: "string \<Rightarrow> string list" where
  "split_ws [] = [[]]"
| "split_ws (c # cs) =
     (if is_space c then [] # split_ws (dropWhile is_space cs)
      else (case split_ws cs of w # rest \<Rightarrow> (c # w) # rest | [] \<Rightarrow> [[c]]))"
  by pat_completeness auto
termination
  by (relation "measure length") (auto simp: less_Suc_eq_le length_dropWhile_le)

text \<open>\<^verbatim>\<open>s.split('\n')\<close>.\<close>

fun split_lines :: "string \<Rightarrow> string list" where
  "split_lines [] = [[]]"
| "split_lines (c # cs) =
     (if c = CHR 0x0A then [] # split_lines cs
      else (case split_lines cs of w # rest \<Rightarrow> (c # w) # rest | [] \<Rightarrow> [[c]]))"

text \<open>
  \<^verbatim>\<open>parseFloat\<close>: leading white space is skipped, then the longest prefix that is a
  decimal literal (sign, digits, fraction, exponent) or \<^verbatim>\<open>Infinity\<close> is read; with no
  such prefix the result is \<open>NaN\<close>. The value is the exact decimal value.
\<close>

definition parse_exponent :: "string \<Rightarrow> int" where
  "parse_exponent r =
     (case r of
        [] \<Rightarrow> 0
      | e # r1 \<Rightarrow>
          if e = CHR ''e'' \<or> e = CHR ''E'' then
            (case r1 of
               [] \<Rightarrow> 0
             | s # r2 \<Rightarrow>
                 if s = CHR ''-'' then
                   (if takeWhile is_digit r2 = [] then 0
                    else - int (digits_val 10 (takeWhile is_digit r2)))
                 else if s = CHR ''+'' then int (digits_val 10 (takeWhile is_digit r2))
                 else int (digits_val 10 (takeWhile is_digit r1)))
          else 0)"

definition parse_unsigned :: "string \<Rightarrow> jsnum" where
  "parse_unsigned r =
     (if take 8 r = ''Infinity'' then PInf
      else
        (let ip = takeWhile is_digit r;
             r1 = dropWhile is_digit r;
             fp = (case r1 of [] \<Rightarrow> [] | d # r2 \<Rightarrow> if d = CHR ''.'' then takeWhile is_digit r2 else []);
             r3 = (case r1 of [] \<Rightarrow> [] | d # r2 \<Rightarrow> if d = CHR ''.'' then dropWhile is_digit r2 else r1);
             ex = parse_exponent r3
         in if ip = [] \<and> fp = [] then NaN
            else Fin (real (digits_val 10 (ip @ fp)) / 10 ^ length fp
                        * (if ex \<ge> 0 then 10 ^ nat ex else 1 / 10 ^ nat (- ex)))))"

definition parseFloat :: "string \<Rightarrow> jsnum" where
  "parseFloat s =
     (case dropWhile is_space s of
        [] \<Rightarrow> NaN
      | c # r \<Rightarrow>
          if c = CHR ''-'' then jneg (parse_unsigned r)
          else if c = CHR ''+'' then parse_unsigned r
          else parse_unsigned (c # r))"

text \<open>
  \<^verbatim>\<open>parseInt\<close> with no radix: white space, a sign, then hexadecimal digits after
  \<^verbatim>\<open>0x\<close> and decimal digits otherwise.
\<close>

definition parse_unsigned_int :: "string \<Rightarrow> jsnum" where
  "parse_unsigned_int r =
     (if take 2 r = ''0x'' \<or> take 2 r = ''0X'' then
        (let ds = takeWhile is_hexdigit (drop 2 r)
         in if ds = [] then NaN else Fin (real (digits_val 16 ds)))
      else
        (let ds = takeWhile is_digit r
         in if ds = [] then NaN else Fin (real (digits_val 10 ds))))"

definition parseInt :: "string \<Rightarrow> jsnum" where
  "parseInt s =
     (case dropWhile is_space s of
        [] \<Rightarrow> NaN
      | c # r \<Rightarrow>
          if c = CHR ''-'' then jneg (parse_unsigned_int r)
          else if c = CHR ''+'' then parse_unsigned_int r
          else parse_unsigned_int (c # r))"

text \<open>
  The conversion of a string to a number that the operators \<^verbatim>\<open>>=\<close>, \<^verbatim>\<open><\<close>,
  \<^verbatim>\<open>-\<close> and \<^verbatim>\<open>/\<close> apply to a string operand: white space at both ends is
  dropped; the empty string is \<open>0\<close>; the rest must be, as a whole, a decimal literal
  (sign, digits, fraction, exponent), \<^verbatim>\<open>Infinity\<close> with an optional sign, or digits in
  base 16, 8 or 2 after \<^verbatim>\<open>0x\<close>, \<^verbatim>\<open>0o\<close> or \<^verbatim>\<open>0b\<close>; every other string is
  \<open>NaN\<close>.
\<close>

definition trim_ws :: "string \<Rightarrow> string" where
  "trim_ws s = rev (dropWhile is_space (rev (dropWhile is_space s)))"

definition is_octdigit :: "char \<Rightarrow> bool" where
  "is_octdigit c = (let n = (of_char c :: nat) in 48 \<le> n \<and> n \<le> 55)"

definition is_bindigit :: "char \<Rightarrow> bool" where
  "is_bindigit c = (c = CHR ''0'' \<or> c = CHR ''1'')"

definition radix_literal :: "nat \<Rightarrow> (char \<Rightarrow> bool) \<Rightarrow> string \<Rightarrow> jsnum" where
  "radix_literal radix ok ds =
     (if ds \<noteq> [] \<and> list_all ok ds then Fin (real (digits_val radix ds)) else NaN)"

text \<open>An exponent part that is the whole of \<open>r\<close>; the empty string is the exponent 0.\<close>

definition whole_exponent :: "string \<Rightarrow> int option" where
  "whole_exponent r =
     (case r of
        [] \<Rightarrow> Some 0
      | e # r1 \<Rightarrow>
          if e = CHR ''e'' \<or> e = CHR ''E'' then
            (case r1 of
               [] \<Rightarrow> None
             | s # r2 \<Rightarrow>
                 if s = CHR ''-'' then
                   (if r2 \<noteq> [] \<and> list_all is_digit r2 then Some (- int (digits_val 10 r2))
                    else None)
                 else if s = CHR ''+'' then
                   (if r2 \<noteq> [] \<and> list_all is_digit r2 then Some (int (digits_val 10 r2))
                    else None)
                 else if list_all is_digit r1 then Some (int (digits_val 10 r1))
                 else None)
          else None)"

definition whole_decimal :: "string \<Rightarrow> jsnum" where
  "whole_decimal r =
     (if r = ''Infinity'' then PInf
      else
        (let ip = takeWhile is_digit r;
             r1 = dropWhile is_digit r;
             fp = (case r1 of [] \<Rightarrow> [] | d # r2 \<Rightarrow> if d = CHR ''.'' then takeWhile is_digit r2 else []);
             r3 = (case r1 of [] \<Rightarrow> [] | d # r2 \<Rightarrow> if d = CHR ''.'' then dropWhile is_digit r2 else r1)
         in if ip = [] \<and> fp = [] then NaN
            else
              (case whole_exponent r3 of
                 None \<Rightarrow> NaN
               | Some ex \<Rightarrow>
                   Fin (real (digits_val 10 (ip @ fp)) / 10 ^ length fp
                          * (if ex \<ge> 0 then 10 ^ nat ex else 1 / 10 ^ nat (- ex))))))"

definition stringToNumber :: "string \<Rightarrow> jsnum" where
  "stringToNumber s =
     (let t = trim_ws s
      in if t = [] then Fin 0
         else if take 2 t = ''0x'' \<or> take 2 t = ''0X'' then radix_literal 16 is_hexdigit (drop 2 t)
         else if take 2 t = ''0o'' \<or> take 2 t = ''0O'' then radix_literal 8 is_octdigit (drop 2 t)
         else if take 2 t = ''0b'' \<or> take 2 t = ''0B'' then radix_literal 2 is_bindigit (drop 2 t)
         else if hd t = CHR ''-'' then jneg (whole_decimal (tl t))
         else if hd t = CHR ''+'' then whole_decimal (tl t)
         else whole_decimal t)"

text \<open>
  \<^verbatim>\<open>svgContent.match(/viewBox=['"]([^'"]+)['"]/)\<close>: the capture group of the leftmost
  match. At a position the match needs \<^verbatim>\<open>viewBox=\<close>, a quote, one character or more
  that are not quotes, and a quote.
\<close>

definition viewBox_at :: "string \<Rightarrow> string option" where
  "viewBox_at s =
     (if take 8 s = ''viewBox='' then
        (case drop 8 s of
           [] \<Rightarrow> None
         | q # rest \<Rightarrow>
             if is_quote q \<and> takeWhile (\<lambda>c. \<not> is_quote c) rest \<noteq> []
                \<and> dropWhile (\<lambda>c. \<not> is_quote c) rest \<noteq> []
             then Some (takeWhile (\<lambda>c. \<not> is_quote c) rest)
             else None)
      else None)"

fun match_viewBox :: "string \<Rightarrow> string option" where
  "match_viewBox [] = None"
| "match_viewBox (c # cs) =
     (case viewBox_at (c # cs) of Some cap \<Rightarrow> Some cap | None \<Rightarrow> match_viewBox cs)"

text \<open>
  \<^verbatim>\<open>svgContent.match(/width=['"]([0-9.]+)/)\<close> and the same for \<^verbatim>\<open>height\<close>: the
  expression is not anchored, so the attribute name may be the end of a longer name.
\<close>

definition attr_at :: "string \<Rightarrow> string \<Rightarrow> string option" where
  "attr_at name s =
     (if take (length name + 1) s = name @ ''='' then
        (case drop (length name + 1) s of
           [] \<Rightarrow> None
         | q # rest \<Rightarrow>
             if is_quote q \<and> takeWhile is_numchar rest \<noteq> []
             then Some (takeWhile is_numchar rest)
             else None)
      else None)"

fun match_attr :: "string \<Rightarrow> string \<Rightarrow> string option" where
  "match_attr name [] = None"
| "match_attr name (c # cs) =
     (case attr_at name (c # cs) of Some cap \<Rightarrow> Some cap | None \<Rightarrow> match_attr name cs)"

text \<open>
  \<^verbatim>\<open>line.match(/^(\w+):(.+)$/)\<close>: a key of word characters, a colon and a value that
  is not empty and runs to the end of the line (the dot matches no line terminator).
\<close>

definition match_line :: "string \<Rightarrow> (string \<times> string) option" where
  "match_line l =
     (case dropWhile is_word l of
        [] \<Rightarrow> None
      | c # v \<Rightarrow>
          if takeWhile is_word l \<noteq> [] \<and> c = CHR '':'' \<and> v \<noteq> []
             \<and> list_all (\<lambda>ch. ch \<noteq> CHR 0x0A \<and> ch \<noteq> CHR 0x0D) v
          then Some (takeWhile is_word l, v)
          else None)"

section \<open>The page geometry resolver\<close>

text \<open>
  \<^verbatim>\<open>getPageDimensions\<close> probes \<^verbatim>\<open>page-01.svg\<close>, \<^verbatim>\<open>page-02.svg\<close>, \<open>\<dots>\<close> and
  stops at the first file that does not exist. Its input here is the list of the contents
  of the files it finds, in page order. The body of the loop is \<open>readPage\<close>; the script
  of each direction has its own copy. The function keeps its result in \<^verbatim>\<open>pageCache\<close>;
  each script calls it once, so the cache is not modelled.
\<close>

definition TARGET_WIDTH :: jsnum where
  "TARGET_WIDTH = Fin 800"

definition PAGE_SPACING :: jsnum where
  "PAGE_SPACING = Fin 32"

text \<open>The four numbers read from the \<^verbatim>\<open>viewBox\<close>: minimum x and y, width, height.\<close>

definition viewBoxNumbers :: "string option \<Rightarrow> jsnum \<times> jsnum \<times> jsnum \<times> jsnum" where
  "viewBoxNumbers viewBoxMatch =
     (case viewBoxMatch of
        None \<Rightarrow> (Fin 0, Fin 0, Fin 600, Fin 800)
      | Some cap \<Rightarrow>
          (let parts = split_ws cap
           in if length parts = 4 then
                (jor (parseFloat (parts ! 0)) (Fin 0),
                 jor (parseFloat (parts ! 1)) (Fin 0),
                 jor (parseFloat (parts ! 2)) (Fin 600),
                 jor (parseFloat (parts ! 3)) (Fin 800))
              else (Fin 0, Fin 0, Fin 600, Fin 800)))"

definition readPage_lookup :: "nat \<Rightarrow> jsnum \<Rightarrow> string \<Rightarrow> page_scaled" where
  "readPage_lookup pn tp svgContent =
     (case viewBoxNumbers (match_viewBox svgContent) of
        (minX, minY, vbW, vbH) \<Rightarrow>
          (let w = (case match_attr ''width'' svgContent of
                      Some m \<Rightarrow> parseFloat m | None \<Rightarrow> vbW);
               h = (case match_attr ''height'' svgContent of
                      Some m \<Rightarrow> parseFloat m | None \<Rightarrow> vbH);
               sc = jdiv TARGET_WIDTH w;
               sw = jmul w sc;
               sh = jmul h sc
           in \<lparr>pageNum = pn, origWidth = w, origHeight = h,
               viewBoxMinX = minX, viewBoxMinY = minY,
               scale = sc, topY = tp, bottomY = jadd tp sh,
               scaledWidth = sw, scaledHeight = sh\<rparr>))"

fun pagesFrom_lookup :: "nat \<Rightarrow> jsnum \<Rightarrow> string list \<Rightarrow> page_scaled list" where
  "pagesFrom_lookup pn tp [] = []"
| "pagesFrom_lookup pn tp (svgContent # rest) =
     (let p = readPage_lookup pn tp svgContent
      in p # pagesFrom_lookup (pn + 1) (jadd tp (jadd (scaledHeight p) PAGE_SPACING)) rest)"

definition getPageDimensions_lookup :: "string list \<Rightarrow> page_scaled list" where
  "getPageDimensions_lookup files = pagesFrom_lookup 1 (Fin 0) files"

definition readPage_reverse :: "nat \<Rightarrow> jsnum \<Rightarrow> string \<Rightarrow> page \<times> jsnum" where
  "readPage_reverse pn tp svgContent =
     (case viewBoxNumbers (match_viewBox svgContent) of
        (minX, minY, vbW, vbH) \<Rightarrow>
          (let w = (case match_attr ''width'' svgContent of
                      Some m \<Rightarrow> parseFloat m | None \<Rightarrow> vbW);
               h = (case match_attr ''height'' svgContent of
                      Some m \<Rightarrow> parseFloat m | None \<Rightarrow> vbH);
               sc = jdiv TARGET_WIDTH w;
               sh = jmul h sc
           in (\<lparr>pageNum = pn, origWidth = w, origHeight = h,
                viewBoxMinX = minX, viewBoxMinY = minY,
                scale = sc, topY = tp, bottomY = jadd tp sh\<rparr>, sh)))"

fun pagesFrom_reverse :: "nat \<Rightarrow> jsnum \<Rightarrow> string list \<Rightarrow> page list" where
  "pagesFrom_reverse pn tp [] = []"
| "pagesFrom_reverse pn tp (svgContent # rest) =
     (case readPage_reverse pn tp svgContent of
        (p, sh) \<Rightarrow> p # pagesFrom_reverse (pn + 1) (jadd tp (jadd sh PAGE_SPACING)) rest)"

definition getPageDimensions_reverse :: "string list \<Rightarrow> page list" where
  "getPageDimensions_reverse files = pagesFrom_reverse 1 (Fin 0) files"

section \<open>The source-synchronisation oracle (\<^verbatim>\<open>synctex-lookup.mjs\<close>)\<close>

text \<open>
  The object built by \<^verbatim>\<open>parseSynctexOutput\<close> is a map from keys to values; a value
  is a number or a string.
\<close>

datatype jsval = JNum jsnum | JStr string

type_synonym jsobj = "string \<rightharpoonup> jsval"

text \<open>
  One step of the loop over the lines. An assignment of a string to the key
  \<^verbatim>\<open>__proto__\<close> of an object changes nothing.
\<close>

definition storeLine :: "string \<Rightarrow> jsobj \<Rightarrow> jsobj" where
  "storeLine line result =
     (case match_line line of
        None \<Rightarrow> result
      | Some (k, v) \<Rightarrow>
          (let key = toLowerCase k
           in if key = ''__proto__'' then result
              else if key = ''line'' \<or> key = ''column'' then result(key \<mapsto> JNum (parseInt v))
              else result(key \<mapsto> JStr v)))"

definition parseSynctexOutput :: "string \<Rightarrow> jsobj" where
  "parseSynctexOutput output = fold storeLine (split_lines output) Map.empty"

text \<open>
  What \<^verbatim>\<open>execSync\<close> does with the command: it returns the standard output of a process
  that exits with code 0, and throws otherwise (the binary is absent, the exit code is not
  0); the exception carries the standard output, when there is one, and a message.
\<close>

datatype exec_result = Exited string | Threw "string option" string

type_synonym synctex_run = "nat \<Rightarrow> jsnum \<Rightarrow> jsnum \<Rightarrow> exec_result"

definition synctexLookup :: "synctex_run \<Rightarrow> nat \<Rightarrow> jsnum \<Rightarrow> jsnum \<Rightarrow> jsobj" where
  "synctexLookup run pn px py =
     (case run pn px py of
        Exited output \<Rightarrow> parseSynctexOutput output
      | Threw stdout message \<Rightarrow>
          (case stdout of
             Some out \<Rightarrow>
               if out \<noteq> [] then parseSynctexOutput out
               else [''error'' \<mapsto> JStr message]
           | None \<Rightarrow> [''error'' \<mapsto> JStr message]))"

text \<open>Truthiness of a property that may be absent.\<close>

fun val_truthy :: "jsval option \<Rightarrow> bool" where
  "val_truthy None = False"
| "val_truthy (Some (JStr s)) = (s \<noteq> [])"
| "val_truthy (Some (JNum n)) = truthy n"

text \<open>The test \<^verbatim>\<open>result.input && result.line\<close> of \<^verbatim>\<open>main\<close>.\<close>

definition sourceFound :: "jsobj \<Rightarrow> bool" where
  "sourceFound result = (val_truthy (result ''input'') \<and> val_truthy (result ''line''))"

section \<open>The snapshot (\<^verbatim>\<open>synctex-lookup.mjs\<close>)\<close>

text \<open>
  A value that \<^verbatim>\<open>JSON.parse\<close> returns. An object is the list of its own properties in
  the order in which \<^verbatim>\<open>Object.entries\<close> lists them; the keys are distinct. A value
  that may be \<^verbatim>\<open>undefined\<close> is a \<open>json option\<close>.
\<close>

datatype json =
    JsNull
  | JsBool bool
  | JsNumber jsnum
  | JsString string
  | JsArray "json list"
  | JsObject "(string \<times> json) list"

text \<open>
  \<^verbatim>\<open>v.k\<close> for a value \<open>v\<close> other than \<^verbatim>\<open>null\<close> and one of the property names that
  the script reads (\<^verbatim>\<open>store\<close>, \<^verbatim>\<open>typeName\<close>, \<^verbatim>\<open>type\<close>, \<^verbatim>\<open>id\<close>, \<^verbatim>\<open>x\<close>,
  \<^verbatim>\<open>y\<close>, \<^verbatim>\<open>props\<close>, \<^verbatim>\<open>color\<close>): an object has the property or not, and a
  string, an array, a number or a boolean has none of them.
\<close>

fun property :: "json \<Rightarrow> string \<Rightarrow> json option" where
  "property (JsObject kvs) k = map_of kvs k"
| "property _ k = None"

text \<open>Truthiness of a value that may be \<^verbatim>\<open>undefined\<close>.\<close>

fun json_truthy :: "json option \<Rightarrow> bool" where
  "json_truthy None = False"
| "json_truthy (Some JsNull) = False"
| "json_truthy (Some (JsBool b)) = b"
| "json_truthy (Some (JsNumber n)) = truthy n"
| "json_truthy (Some (JsString s)) = (s \<noteq> [])"
| "json_truthy (Some (JsArray xs)) = True"
| "json_truthy (Some (JsObject kvs)) = True"

text \<open>
  The values that \<^verbatim>\<open>Object.entries(store || {})\<close> lists: the property values of an
  object, the elements of an array, the characters of a string, and nothing for a number
  or a boolean. The loop does not use the keys.
\<close>

fun entryValues :: "json option \<Rightarrow> json list" where
  "entryValues (Some (JsObject kvs)) = map snd kvs"
| "entryValues (Some (JsArray xs)) = xs"
| "entryValues (Some (JsString s)) = map (\<lambda>c. JsString [c]) s"
| "entryValues _ = []"

text \<open>The object that the loop of \<^verbatim>\<open>readAnnotationsFromSnapshot\<close> pushes.\<close>

record annotation =
  annId :: "json option"
  annType :: "json option"
  annX :: "json option"
  annY :: "json option"
  annColor :: "json option"

text \<open>
  \<^verbatim>\<open>record.typeName === 'shape' && record.type !== 'image'\<close> and the pushed object, for
  a record other than \<^verbatim>\<open>null\<close>; \<^verbatim>\<open>record.props?.color\<close> is \<^verbatim>\<open>undefined\<close> when
  \<^verbatim>\<open>props\<close> is \<^verbatim>\<open>undefined\<close> or \<^verbatim>\<open>null\<close>.
\<close>

definition isAnnotation :: "json \<Rightarrow> bool" where
  "isAnnotation r =
     (property r ''typeName'' = Some (JsString ''shape'') \<and> property r ''type'' \<noteq> Some (JsString ''image''))"

definition toAnnotation :: "json \<Rightarrow> annotation" where
  "toAnnotation r =
     \<lparr>annId = property r ''id'', annType = property r ''type'', annX = property r ''x'', annY = property r ''y'',
      annColor = (case property r ''props'' of
                    None \<Rightarrow> None
                  | Some props \<Rightarrow> if props = JsNull then None else property props ''color'')\<rparr>"

text \<open>The loop over the records: reading \<^verbatim>\<open>typeName\<close> of a record \<^verbatim>\<open>null\<close> throws.\<close>

fun collectAnnotations :: "json list \<Rightarrow> annotation list \<Rightarrow> jserror + annotation list" where
  "collectAnnotations [] annotations = Inr annotations"
| "collectAnnotations (r # rs) annotations =
     (if r = JsNull then Inl NullTypeError
      else collectAnnotations rs
             (if isAnnotation r then annotations @ [toAnnotation r] else annotations))"

text \<open>
  The snapshot file as the function finds it: there is none; it cannot be read; its text
  is not JSON; or \<^verbatim>\<open>JSON.parse\<close> returns a value. Reading \<^verbatim>\<open>store\<close> of the value
  \<^verbatim>\<open>null\<close> throws.
\<close>

datatype snapshot_file = NoSnapshot | Unreadable | NotJson | Parsed json

definition readAnnotationsFromSnapshot :: "snapshot_file \<Rightarrow> jserror + annotation list" where
  "readAnnotationsFromSnapshot file =
     (case file of
        NoSnapshot \<Rightarrow> Inr []
      | Unreadable \<Rightarrow> Inl ReadError
      | NotJson \<Rightarrow> Inl SyntaxError
      | Parsed snapshot \<Rightarrow>
          if snapshot = JsNull then Inl NullTypeError
          else
            (let store = property snapshot ''store''
             in collectAnnotations (if json_truthy store then entryValues store else []) []))"

text \<open>
  The number that the comparisons and the arithmetic of \<^verbatim>\<open>tldrawToPdfCoords\<close> make of
  an argument that is not a number. An array counts as the string that joins its elements
  with commas, where \<^verbatim>\<open>null\<close> is the empty string and a number is its own decimal form;
  \<open>stringNumber v\<close> is the number of the string form of \<open>v\<close>.
\<close>

fun stringNumber :: "json \<Rightarrow> jsnum" where
  "stringNumber JsNull = Fin 0"
| "stringNumber (JsBool b) = NaN"
| "stringNumber (JsNumber n) = n"
| "stringNumber (JsString s) = stringToNumber s"
| "stringNumber (JsArray []) = Fin 0"
| "stringNumber (JsArray [x]) = stringNumber x"
| "stringNumber (JsArray (x # y # zs)) = NaN"
| "stringNumber (JsObject kvs) = NaN"

fun toNumber :: "json option \<Rightarrow> jsnum" where
  "toNumber None = NaN"
| "toNumber (Some JsNull) = Fin 0"
| "toNumber (Some (JsBool b)) = Fin (if b then 1 else 0)"
| "toNumber (Some (JsNumber n)) = n"
| "toNumber (Some (JsString s)) = stringToNumber s"
| "toNumber (Some (JsArray xs)) = stringNumber (JsArray xs)"
| "toNumber (Some (JsObject kvs)) = NaN"

text \<open>Only a number has the method \<^verbatim>\<open>toFixed\<close>.\<close>

fun isNumber :: "json option \<Rightarrow> bool" where
  "isNumber (Some (JsNumber n)) = True"
| "isNumber _ = False"

section \<open>The command line of \<^verbatim>\<open>synctex-lookup.mjs\<close>\<close>

text \<open>
  What \<^verbatim>\<open>main\<close> reads from outside: whether the PDF and its synctex file exist, the
  page files, the snapshot file and the oracle. What it prints on the standard output is
  kept as a list of events, and how it ends as an \<open>ending\<close>: a return,
  \<^verbatim>\<open>process.exit(1)\<close>, or an exception that reaches \<^verbatim>\<open>main().catch\<close>.
\<close>

record env =
  pdfExists :: bool
  synctexExists :: bool
  svgFiles :: "string list"
  snapshotFile :: snapshot_file
  runSynctex :: synctex_run

datatype exit_reason = PdfNotFound | SynctexNotFound | UsageError

datatype ending = Returned | Exit1 exit_reason | Uncaught jserror

datatype event =
    LoadedPages nat
  | FoundAnnotations nat
  | Converted coords
  | Source jsobj
  | NoSource

text \<open>The lookup of one canvas point, and what is printed for it.\<close>

definition lookupPoint ::
  "'a page_scheme list \<Rightarrow> synctex_run \<Rightarrow> jsnum \<Rightarrow> jsnum \<Rightarrow> jserror + event list" where
  "lookupPoint pages run x y =
     (case tldrawToPdfCoords pages x y of
        Inl e \<Rightarrow> Inl e
      | Inr c \<Rightarrow>
          (let result = synctexLookup run (c_page c) (pdfX c) (pdfY c)
           in Inr [Converted c, if sourceFound result then Source result else NoSource]))"

text \<open>
  The body of the loop over the annotations: the conversion, the call of the oracle, and
  then the first line printed, which calls \<^verbatim>\<open>toFixed\<close> on \<^verbatim>\<open>ann.x\<close> and
  \<^verbatim>\<open>ann.y\<close>.
\<close>

definition lookupAnnotation ::
  "'a page_scheme list \<Rightarrow> synctex_run \<Rightarrow> annotation \<Rightarrow> jserror + event list" where
  "lookupAnnotation pages run ann =
     (case lookupPoint pages run (toNumber (annX ann)) (toNumber (annY ann)) of
        Inl e \<Rightarrow> Inl e
      | Inr evs \<Rightarrow>
          if isNumber (annX ann) \<and> isNumber (annY ann) then Inr evs else Inl ToFixedTypeError)"

fun lookupAnnotations ::
  "'a page_scheme list \<Rightarrow> synctex_run \<Rightarrow> annotation list \<Rightarrow> event list \<times> ending" where
  "lookupAnnotations pages run [] = ([], Returned)"
| "lookupAnnotations pages run (ann # anns) =
     (case lookupAnnotation pages run ann of
        Inl e \<Rightarrow> ([], Uncaught e)
      | Inr evs \<Rightarrow>
          (case lookupAnnotations pages run anns of (rest, e) \<Rightarrow> (evs @ rest, e)))"

text \<open>\<^verbatim>\<open>args[k]\<close>, and the two parsers on an argument that may be \<^verbatim>\<open>undefined\<close>.\<close>

definition arg :: "string list \<Rightarrow> nat \<Rightarrow> string option" where
  "arg args k = (if k < length args then Some (args ! k) else None)"

definition parseFloatArg :: "string option \<Rightarrow> jsnum" where
  "parseFloatArg a = (case a of None \<Rightarrow> NaN | Some s \<Rightarrow> parseFloat s)"

definition parseIntArg :: "string option \<Rightarrow> jsnum" where
  "parseIntArg a = (case a of None \<Rightarrow> NaN | Some s \<Rightarrow> parseInt s)"

definition canvasPoint :: "'a page_scheme list \<Rightarrow> string list \<Rightarrow> jserror + jsnum \<times> jsnum" where
  "canvasPoint pages args =
     (if arg args 0 = Some ''--page'' then
        (case js_index pages (jsub (parseIntArg (arg args 1)) (Fin 1)) of
           None \<Rightarrow> Inl TypeError
         | Some p \<Rightarrow> Inr (parseFloatArg (arg args 2), jadd (topY p) (parseFloatArg (arg args 3))))
      else Inr (parseFloatArg (arg args 0), parseFloatArg (arg args 1)))"

definition main :: "env \<Rightarrow> string list \<Rightarrow> event list \<times> ending" where
  "main e args =
     (if \<not> pdfExists e then ([], Exit1 PdfNotFound)
      else if \<not> synctexExists e then ([], Exit1 SynctexNotFound)
      else
        (let pages = getPageDimensions_lookup (svgFiles e);
             loaded = [LoadedPages (length pages)]
         in if arg args 0 = Some ''--from-snapshot'' then
              (case readAnnotationsFromSnapshot (snapshotFile e) of
                 Inl err \<Rightarrow> (loaded, Uncaught err)
               | Inr annotations \<Rightarrow>
                   (case lookupAnnotations pages (runSynctex e) annotations of
                      (evs, en) \<Rightarrow> (loaded @ [FoundAnnotations (length annotations)] @ evs, en)))
            else
              (case canvasPoint pages args of
                 Inl err \<Rightarrow> (loaded, Uncaught err)
               | Inr (x, y) \<Rightarrow>
                   if x = NaN \<or> y = NaN then (loaded, Exit1 UsageError)
                   else
                     (case lookupPoint pages (runSynctex e) x y of
                        Inl err \<Rightarrow> (loaded, Uncaught err)
                      | Inr evs \<Rightarrow> (loaded @ evs, Returned)))))"

section \<open>Page bands and layouts\<close>

text \<open>The half-open band \<open>[top, bottom)\<close> of a page, as \<^verbatim>\<open>findPageForY\<close> tests it.\<close>

definition in_band :: "'a page_scheme \<Rightarrow> jsnum \<Rightarrow> bool" where
  "in_band p y = (jge y (topY p) \<and> jlt y (bottomY p))"

text \<open>\<open>a \<le> b\<close> for two finite numbers.\<close>

fun fin_le :: "jsnum \<Rightarrow> jsnum \<Rightarrow> bool" where
  "fin_le (Fin a) (Fin b) = (a \<le> b)"
| "fin_le _ _ = False"

text \<open>
  Two conditions on a page list: the bands lie one after the other (the bottom of a page
  is at or before the top of every later page, and both are finite); the tops are finite
  and do not decrease.
\<close>

definition bands_ordered :: "'a page_scheme list \<Rightarrow> bool" where
  "bands_ordered ps = sorted_wrt (\<lambda>p q. fin_le (bottomY p) (topY q)) ps"

definition tops_sorted :: "'a page_scheme list \<Rightarrow> bool" where
  "tops_sorted ps = sorted_wrt (\<lambda>p q. fin_le (topY p) (topY q)) ps"

text \<open>
  A page whose bottom is not before its top; a point in the gap after some page and before
  the next one; a point at or beyond the bottom of the last page.
\<close>

definition upright :: "'a page_scheme \<Rightarrow> bool" where
  "upright p = fin_le (topY p) (bottomY p)"

definition in_gap :: "'a page_scheme list \<Rightarrow> jsnum \<Rightarrow> bool" where
  "in_gap ps y =
     (\<exists>i. Suc i < length ps \<and> jge y (bottomY (ps ! i)) \<and> jlt y (topY (ps ! Suc i)))"

definition beyond_last :: "'a page_scheme list \<Rightarrow> jsnum \<Rightarrow> bool" where
  "beyond_last ps y = jge y (bottomY (last ps))"

section \<open>Sample inputs\<close>

text \<open>
  Input for the examples below: a page file with a \<^verbatim>\<open>viewBox\<close> attribute in double
  quotes.
\<close>

definition svg_with_viewBox :: "string \<Rightarrow> string" where
  "svg_with_viewBox vb = ''<svg viewBox='' @ [CHR 0x22] @ vb @ [CHR 0x22] @ ''>''"

text \<open>
  Four page files; the \<^verbatim>\<open>viewBox\<close> of the second one has a negative height. The
  second page ends above its top, and the third page starts above the first one.
\<close>

definition negative_height_files :: "string list" where
  "negative_height_files =
     [svg_with_viewBox ''0 0 800 1000'', svg_with_viewBox ''0 0 800 -2000'',
      svg_with_viewBox ''0 0 800 1000'', svg_with_viewBox ''0 0 800 1000'']"

text \<open>
  A snapshot with one shape, and what \<^verbatim>\<open>main\<close> reads when the PDF and its synctex
  file exist and there is no page file.
\<close>

definition one_shape_snapshot :: json where
  "one_shape_snapshot =
     JsObject [(''store'',
        JsObject [(''shape:a'',
          JsObject [(''typeName'', JsString ''shape''), (''type'', JsString ''draw''),
                    (''x'', JsNumber (Fin 10)), (''y'', JsNumber (Fin 20))])])]"

definition no_pages_env :: "snapshot_file \<Rightarrow> env" where
  "no_pages_env file =
     \<lparr>pdfExists = True, synctexExists = True, svgFiles = [], snapshotFile = file,
      runSynctex = (\<lambda>pn px py. Exited [])\<rparr>"

section \<open>The resolver and the parser on sample inputs\<close>

lemmas parse_defs =
  svg_with_viewBox_def
  readPage_lookup_def readPage_reverse_def viewBoxNumbers_def viewBox_at_def attr_at_def
  parseFloat_def parse_unsigned_def parse_exponent_def digits_val_def digit_val_def
  is_quote_def is_space_def is_digit_def is_numchar_def jor_def
  TARGET_WIDTH_def PAGE_SPACING_def Let_def

text \<open>Two page files with no geometry: both pages get the default size.\<close>

lemma two_default_pages:
  "getPageDimensions_lookup [''<svg>'', ''<svg>''] =
     [\<lparr>pageNum = 1, origWidth = Fin 600, origHeight = Fin 800,
        viewBoxMinX = Fin 0, viewBoxMinY = Fin 0, scale = Fin (4 / 3), topY = Fin 0,
        bottomY = Fin (3200 / 3), scaledWidth = Fin 800, scaledHeight = Fin (3200 / 3)\<rparr>,
      \<lparr>pageNum = 2, origWidth = Fin 600, origHeight = Fin 800,
        viewBoxMinX = Fin 0, viewBoxMinY = Fin 0, scale = Fin (4 / 3),
        topY = Fin (3296 / 3), bottomY = Fin (6496 / 3),
        scaledWidth = Fin 800, scaledHeight = Fin (3200 / 3)\<rparr>]"
  by (simp add: getPageDimensions_lookup_def parse_defs)

text \<open>The pages of the four files \<open>negative_height_files\<close>.\<close>

lemma negative_height_pages:
  "getPageDimensions_lookup negative_height_files =
     [\<lparr>pageNum = 1, origWidth = Fin 800, origHeight = Fin 1000,
        viewBoxMinX = Fin 0, viewBoxMinY = Fin 0, scale = Fin 1, topY = Fin 0,
        bottomY = Fin 1000, scaledWidth = Fin 800, scaledHeight = Fin 1000\<rparr>,
      \<lparr>pageNum = 2, origWidth = Fin 800, origHeight = Fin (- 2000),
        viewBoxMinX = Fin 0, viewBoxMinY = Fin 0, scale = Fin 1, topY = Fin 1032,
        bottomY = Fin (- 968), scaledWidth = Fin 800, scaledHeight = Fin (- 2000)\<rparr>,
      \<lparr>pageNum = 3, origWidth = Fin 800, origHeight = Fin 1000,
        viewBoxMinX = Fin 0, viewBoxMinY = Fin 0, scale = Fin 1, topY = Fin (- 936),
        bottomY = Fin 64, scaledWidth = Fin 800, scaledHeight = Fin 1000\<rparr>,
      \<lparr>pageNum = 4, origWidth = Fin 800, origHeight = Fin 1000,
        viewBoxMinX = Fin 0, viewBoxMinY = Fin 0, scale = Fin 1, topY = Fin 96,
        bottomY = Fin 1096, scaledWidth = Fin 800, scaledHeight = Fin 1000\<rparr>]"
  by (simp add: negative_height_files_def getPageDimensions_lookup_def parse_defs)

text \<open>The pages of the first three of these files.\<close>

lemma three_pages_negative_height:
  "getPageDimensions_lookup (butlast negative_height_files) =
     [\<lparr>pageNum = 1, origWidth = Fin 800, origHeight = Fin 1000,
        viewBoxMinX = Fin 0, viewBoxMinY = Fin 0, scale = Fin 1, topY = Fin 0,
        bottomY = Fin 1000, scaledWidth = Fin 800, scaledHeight = Fin 1000\<rparr>,
      \<lparr>pageNum = 2, origWidth = Fin 800, origHeight = Fin (- 2000),
        viewBoxMinX = Fin 0, viewBoxMinY = Fin 0, scale = Fin 1, topY = Fin 1032,
        bottomY = Fin (- 968), scaledWidth = Fin 800, scaledHeight = Fin (- 2000)\<rparr>,
      \<lparr>pageNum = 3, origWidth = Fin 800, origHeight = Fin 1000,
        viewBoxMinX = Fin 0, viewBoxMinY = Fin 0, scale = Fin 1, topY = Fin (- 936),
        bottomY = Fin 64, scaledWidth = Fin 800, scaledHeight = Fin 1000\<rparr>]"
  by (simp add: negative_height_files_def getPageDimensions_lookup_def parse_defs)

lemmas oracle_defs =
  parseSynctexOutput_def storeLine_def match_line_def toLowerCase_def lower_char_def is_word_def
  parseInt_def parse_unsigned_int_def is_digit_def is_space_def is_hexdigit_def
  digits_val_def digit_val_def Let_def

lemma parse_input_and_line:
  "parseSynctexOutput (''Input:/a.tex'' @ [CHR 0x0A] @ ''Line:42'')
     = [''input'' \<mapsto> JStr ''/a.tex'', ''line'' \<mapsto> JNum (Fin 42)]"
  by (simp add: oracle_defs)

section \<open>Array indexing and the page scan\<close>

lemma js_index_of_nat:
  "js_index xs (Fin (real k)) = (if k < length xs then Some (xs ! k) else None)"
  by simp

lemma jsub_of_nat_1: "1 \<le> n \<Longrightarrow> jsub (Fin (real n)) (Fin 1) = Fin (real (n - 1))"
proof -
  assume "1 \<le> n"
  then have "real (n - 1) = real n - 1" by (simp add: of_nat_diff)
  then show ?thesis by (simp add: jsub_def)
qed

lemma js_index_nat:
  "js_index pages (jsub (Fin (real n)) (Fin 1)) =
     (if 1 \<le> n \<and> n \<le> length pages then Some (pages ! (n - 1)) else None)"
proof (cases "1 \<le> n")
  case True
  have "js_index pages (Fin (real (n - 1))) =
      (if n - 1 < length pages then Some (pages ! (n - 1)) else None)"
    by (rule js_index_of_nat)
  moreover have "n - 1 < length pages \<longleftrightarrow> n \<le> length pages" using True by auto
  ultimately show ?thesis using True by (simp only: jsub_of_nat_1 [OF True] if_True simp_thms)
next
  case False
  then have "n = 0" by simp
  then show ?thesis by (simp add: jsub_def)
qed

lemma js_index_last:
  "pages \<noteq> [] \<Longrightarrow>
    js_index pages (jsub (Fin (real (length pages))) (Fin 1)) = Some (last pages)"
proof -
  assume ne: "pages \<noteq> []"
  then have len: "1 \<le> length pages" by (cases pages) auto
  have "js_index pages (jsub (Fin (real (length pages))) (Fin 1)) =
      Some (pages ! (length pages - 1))"
    using len by (simp only: js_index_nat) simp
  then show ?thesis using ne by (simp add: last_conv_nth)
qed

lemma scanPages_None: "scanPages pages y = None \<longleftrightarrow> (\<forall>p \<in> set pages. \<not> in_band p y)"
  by (induction pages) (auto simp: in_band_def)

lemma scanPages_first: "i < length pages \<Longrightarrow> in_band (pages ! i) y \<Longrightarrow> (\<forall>j<i. \<not> in_band (pages ! j) y) \<Longrightarrow> scanPages pages y = Some (pages ! i)"
proof (induction pages arbitrary: i)
  case Nil then show ?case by simp
next
  case (Cons p ps)
  show ?case
  proof (cases i)
    case 0 then show ?thesis using Cons.prems by (simp add: in_band_def)
  next
    case (Suc k)
    then have "\<not> in_band p y" using Cons.prems(3) by auto
    moreover have "\<forall>j<k. \<not> in_band (ps ! j) y"
    proof (intro allI impI)
      fix j assume "j < k"
      then have "Suc j < i" using Suc by simp
      then have "\<not> in_band ((p # ps) ! Suc j) y" using Cons.prems(3) by blast
      then show "\<not> in_band (ps ! j) y" by simp
    qed
    then have "scanPages ps y = Some (ps ! k)"
      using Cons.IH[of k] Cons.prems(1,2) Suc by simp
    ultimately show ?thesis using Suc by (auto simp: in_band_def)
  qed
qed

lemma findPageForY_Some: "pages \<noteq> [] \<Longrightarrow> \<exists>p. findPageForY pages y = Some p"
  by (cases "scanPages pages y") (simp_all add: findPageForY_def js_index_last)

lemma findPageForY_none_in_band:
  "pages \<noteq> [] \<Longrightarrow> \<forall>p \<in> set pages. \<not> in_band p y \<Longrightarrow> findPageForY pages y = Some (last pages)"
proof -
  assume ne: "pages \<noteq> []" and nb: "\<forall>p \<in> set pages. \<not> in_band p y"
  from nb have "scanPages pages y = None" by (simp add: scanPages_None)
  then show ?thesis using ne by (simp add: findPageForY_def js_index_last)
qed

lemma findPageForY_first:
  "i < length pages \<Longrightarrow> in_band (pages ! i) y \<Longrightarrow> \<forall>j<i. \<not> in_band (pages ! j) y \<Longrightarrow>
    findPageForY pages y = Some (pages ! i)"
  by (simp add: findPageForY_def scanPages_first)

lemma tldrawToPdfCoords_total:
  "pages \<noteq> [] \<Longrightarrow> \<exists>r. tldrawToPdfCoords pages x y = Inr r"
proof -
  assume "pages \<noteq> []"
  then obtain p where "findPageForY pages y = Some p" using findPageForY_Some by blast
  then show ?thesis by (simp add: tldrawToPdfCoords_def Let_def)
qed

lemma tldrawToPdfCoords_page:
  "findPageForY pages y = Some p \<Longrightarrow>
     \<exists>r. tldrawToPdfCoords pages x y = Inr r \<and> c_page r = pageNum p"
  by (simp add: tldrawToPdfCoords_def Let_def)

section \<open>Canvas to document: the formula\<close>

text \<open>
  Claim C3. For a page list that is not empty and a canvas point \<open>(x, y)\<close>,
  \<^verbatim>\<open>tldrawToPdfCoords\<close> returns, for the page \<open>p\<close> that \<^verbatim>\<open>findPageForY\<close> selects
  for \<open>y\<close>, the page number of \<open>p\<close>, \<open>pdfX = x / p.scale + p.viewBoxMinX\<close> and
  \<open>pdfY = (y - p.top) / p.scale + p.viewBoxMinY\<close>.
\<close>

theorem tldrawToPdfCoords_formula:
  assumes "pages \<noteq> []"
  shows "\<exists>p r. findPageForY pages y = Some p \<and> tldrawToPdfCoords pages x y = Inr r
           \<and> c_page r = pageNum p
           \<and> pdfX r = jadd (jdiv x (scale p)) (viewBoxMinX p)
           \<and> pdfY r = jadd (jdiv (jsub y (topY p)) (scale p)) (viewBoxMinY p)"
proof -
  from assms obtain p where "findPageForY pages y = Some p"
    using findPageForY_Some by blast
  then show ?thesis by (simp add: tldrawToPdfCoords_def Let_def)
qed

theorem tldrawToPdfCoords_formula_witness:
  "getPageDimensions_lookup [''<svg>'', ''<svg>''] \<noteq> []
   \<and> (\<exists>p r. findPageForY (getPageDimensions_lookup [''<svg>'', ''<svg>'']) (Fin 1200) = Some p
        \<and> tldrawToPdfCoords (getPageDimensions_lookup [''<svg>'', ''<svg>'']) (Fin 40) (Fin 1200)
            = Inr r
        \<and> c_page r = pageNum p
        \<and> pdfX r = jadd (jdiv (Fin 40) (scale p)) (viewBoxMinX p)
        \<and> pdfY r = jadd (jdiv (jsub (Fin 1200) (topY p)) (scale p)) (viewBoxMinY p))"
proof -
  have ne: "getPageDimensions_lookup [''<svg>'', ''<svg>''] \<noteq> []"
    by (simp add: two_default_pages)
  from tldrawToPdfCoords_formula [OF ne, where y = "Fin 1200" and x = "Fin 40"] ne
  show ?thesis by simp
qed

section \<open>Canvas to document: the page lookup\<close>

lemma jlt_jge_same: "jlt y b \<Longrightarrow> jge y b \<Longrightarrow> False"
  by (cases y; cases b) auto

lemma fin_le_iff: "fin_le x y \<longleftrightarrow> (\<exists>a b. x = Fin a \<and> y = Fin b \<and> a \<le> b)"
  by (cases x; cases y) auto

lemma fin_le_trans: "fin_le a b \<Longrightarrow> fin_le b c \<Longrightarrow> fin_le a c"
  by (auto simp: fin_le_iff)

lemma not_below_and_above: "fin_le b t \<Longrightarrow> jlt y b \<Longrightarrow> jge y t \<Longrightarrow> False"
  by (cases y; cases b; cases t) auto

text \<open>In a list of upright pages with ordered bands, tops and bottoms are sorted.\<close>

lemma ordered_bottoms:
  assumes "bands_ordered ps" "\<forall>p \<in> set ps. upright p" "i < j" "j < length ps"
  shows "fin_le (bottomY (ps ! i)) (bottomY (ps ! j))"
proof -
  have "fin_le (bottomY (ps ! i)) (topY (ps ! j))"
    using assms(1,3,4) by (simp add: bands_ordered_def sorted_wrt_iff_nth_less)
  moreover have "fin_le (topY (ps ! j)) (bottomY (ps ! j))"
    using assms(2,4) by (simp add: upright_def)
  ultimately show ?thesis by (rule fin_le_trans)
qed

lemma ordered_tops:
  assumes "bands_ordered ps" "\<forall>p \<in> set ps. upright p" "i < j" "j < length ps"
  shows "fin_le (topY (ps ! i)) (topY (ps ! j))"
proof -
  have "fin_le (topY (ps ! i)) (bottomY (ps ! i))"
    using assms(2,3,4) by (simp add: upright_def)
  moreover have "fin_le (bottomY (ps ! i)) (topY (ps ! j))"
    using assms(1,3,4) by (simp add: bands_ordered_def sorted_wrt_iff_nth_less)
  ultimately show ?thesis by (rule fin_le_trans)
qed

lemma gap_in_no_band:
  assumes ord: "bands_ordered ps" and up: "\<forall>p \<in> set ps. upright p"
    and gap: "Suc i < length ps" "jge y (bottomY (ps ! i))" "jlt y (topY (ps ! Suc i))"
    and k: "k < length ps"
  shows "\<not> in_band (ps ! k) y"
proof
  assume "in_band (ps ! k) y"
  then have ge: "jge y (topY (ps ! k))" and lt: "jlt y (bottomY (ps ! k))"
    by (simp_all add: in_band_def)
  consider "k < i" | "k = i" | "k = Suc i" | "Suc i < k" by linarith
  then show False
  proof cases
    case 1
    then have "fin_le (bottomY (ps ! k)) (bottomY (ps ! i))"
      using ordered_bottoms [OF ord up] gap(1) by simp
    then show False using lt gap(2) not_below_and_above by blast
  next
    case 2
    then show False using lt gap(2) jlt_jge_same by blast
  next
    case 3
    then show False using ge gap(3) jlt_jge_same by blast
  next
    case 4
    then have "fin_le (topY (ps ! Suc i)) (topY (ps ! k))"
      using ordered_tops [OF ord up] k by simp
    then show False using ge gap(3) not_below_and_above by blast
  qed
qed

lemma beyond_in_no_band:
  assumes ord: "bands_ordered ps" and up: "\<forall>p \<in> set ps. upright p"
    and ne: "ps \<noteq> []" and bey: "jge y (bottomY (last ps))" and k: "k < length ps"
  shows "\<not> in_band (ps ! k) y"
proof
  assume "in_band (ps ! k) y"
  then have lt: "jlt y (bottomY (ps ! k))" by (simp add: in_band_def)
  have last: "last ps = ps ! (length ps - 1)" using ne by (simp add: last_conv_nth)
  show False
  proof (cases "k = length ps - 1")
    case True
    then show False using lt bey last jlt_jge_same by metis
  next
    case False
    then have "k < length ps - 1" using k by simp
    then have "fin_le (bottomY (ps ! k)) (bottomY (ps ! (length ps - 1)))"
      using ordered_bottoms [OF ord up] k by simp
    then show False using lt bey last not_below_and_above by metis
  qed
qed

lemma gap_or_beyond_no_band:
  assumes "ps \<noteq> []" "bands_ordered ps" "\<forall>p \<in> set ps. upright p"
    and "in_gap ps y \<or> beyond_last ps y"
  shows "\<forall>p \<in> set ps. \<not> in_band p y"
proof -
  have "\<forall>k < length ps. \<not> in_band (ps ! k) y"
  proof (intro allI impI)
    fix k assume k: "k < length ps"
    from assms(4) show "\<not> in_band (ps ! k) y"
    proof
      assume "in_gap ps y"
      then obtain i where "Suc i < length ps" "jge y (bottomY (ps ! i))"
        "jlt y (topY (ps ! Suc i))" by (auto simp: in_gap_def)
      then show ?thesis using gap_in_no_band [OF assms(2,3)] k by blast
    next
      assume "beyond_last ps y"
      then have "jge y (bottomY (last ps))" by (simp add: beyond_last_def)
      then show ?thesis using beyond_in_no_band [OF assms(2,3,1)] k by blast
    qed
  qed
  then show ?thesis by (metis in_set_conv_nth)
qed

text \<open>
  Claim C4, as the spec states it: for every page list that is not empty, a point in the
  gap between two pages, or at or beyond the bottom of the last page, goes to the last
  page. This fails on the pages of \<open>negative_height_files\<close>: the point \<open>80\<close> is in the
  gap between page 3, which ends at \<open>64\<close>, and page 4, which starts at \<open>96\<close>; it is
  also inside the band of page 1, so \<^verbatim>\<open>findPageForY\<close> returns page 1 and
  \<^verbatim>\<open>tldrawToPdfCoords\<close> returns the page number 1, and the last page is page 4. On the
  pages of the first three files the point \<open>500\<close> is beyond the bottom \<open>64\<close> of the last
  page and goes to page 1 in the same way.
\<close>

theorem gap_and_beyond_counterexample:
  "in_gap (getPageDimensions_lookup negative_height_files) (Fin 80)
   \<and> findPageForY (getPageDimensions_lookup negative_height_files) (Fin 80)
       = Some (getPageDimensions_lookup negative_height_files ! 0)
   \<and> findPageForY (getPageDimensions_lookup negative_height_files) (Fin 80)
       \<noteq> Some (last (getPageDimensions_lookup negative_height_files))
   \<and> tldrawToPdfCoords (getPageDimensions_lookup negative_height_files) (Fin 5) (Fin 80)
       = Inr \<lparr>c_page = 1, pdfX = Fin 5, pdfY = Fin 80, localX = Fin 5, localY = Fin 80,
              c_origWidth = Fin 800, c_origHeight = Fin 1000\<rparr>
   \<and> pageNum (last (getPageDimensions_lookup negative_height_files)) = 4
   \<and> beyond_last (getPageDimensions_lookup (butlast negative_height_files)) (Fin 500)
   \<and> findPageForY (getPageDimensions_lookup (butlast negative_height_files)) (Fin 500)
       = Some (getPageDimensions_lookup (butlast negative_height_files) ! 0)
   \<and> findPageForY (getPageDimensions_lookup (butlast negative_height_files)) (Fin 500)
       \<noteq> Some (last (getPageDimensions_lookup (butlast negative_height_files)))"
proof -
  have "Suc 2 < length (getPageDimensions_lookup negative_height_files)
      \<and> jge (Fin 80) (bottomY (getPageDimensions_lookup negative_height_files ! 2))
      \<and> jlt (Fin 80) (topY (getPageDimensions_lookup negative_height_files ! Suc 2))"
    by (simp add: negative_height_pages)
  then have gap: "in_gap (getPageDimensions_lookup negative_height_files) (Fin 80)"
    unfolding in_gap_def by blast
  show ?thesis
    using gap
    by (simp add: negative_height_pages three_pages_negative_height findPageForY_def
        tldrawToPdfCoords_def beyond_last_def jsub_def Let_def)
qed

text \<open>
  Claim C4, amended. For a page list that is not empty, \<^verbatim>\<open>findPageForY\<close> returns the
  first page, in list order, whose band \<open>[top, bottom)\<close> contains \<open>y\<close>, and
  \<^verbatim>\<open>tldrawToPdfCoords\<close> returns the number of that page. When the bands are upright and
  ordered (tops and bottoms are finite, the top of a page is at or before its bottom, and
  the bottom of a page is at or before the top of every later page), a point in the gap
  between two pages, or at or beyond the bottom of the last page, goes to the last page:
  \<^verbatim>\<open>findPageForY\<close> returns the last page of the list and \<^verbatim>\<open>tldrawToPdfCoords\<close>
  returns its number. The same holds for every page list and every point that is in no
  band. \<^verbatim>\<open>tldrawToPdfCoords\<close> throws nothing, whatever the point is.
\<close>

theorem findPageForY_first_match_gap_last:
  assumes "pages \<noteq> []"
  shows "(\<forall>i < length pages. in_band (pages ! i) y \<and> (\<forall>j < i. \<not> in_band (pages ! j) y) \<longrightarrow>
            findPageForY pages y = Some (pages ! i)
            \<and> (\<exists>r. tldrawToPdfCoords pages x y = Inr r \<and> c_page r = pageNum (pages ! i)))
       \<and> (bands_ordered pages \<and> (\<forall>p \<in> set pages. upright p)
            \<and> (in_gap pages y \<or> beyond_last pages y) \<longrightarrow>
            findPageForY pages y = Some (last pages)
            \<and> (\<exists>r. tldrawToPdfCoords pages x y = Inr r \<and> c_page r = pageNum (last pages)))
       \<and> ((\<forall>p \<in> set pages. \<not> in_band p y) \<longrightarrow>
            findPageForY pages y = Some (last pages)
            \<and> (\<exists>r. tldrawToPdfCoords pages x y = Inr r \<and> c_page r = pageNum (last pages)))
       \<and> (\<exists>r. tldrawToPdfCoords pages x y = Inr r)"
proof (intro conjI allI impI)
  fix i assume i: "i < length pages"
    and b: "in_band (pages ! i) y \<and> (\<forall>j < i. \<not> in_band (pages ! j) y)"
  then show f: "findPageForY pages y = Some (pages ! i)"
    using findPageForY_first by blast
  show "\<exists>r. tldrawToPdfCoords pages x y = Inr r \<and> c_page r = pageNum (pages ! i)"
    using f by (rule tldrawToPdfCoords_page)
next
  assume a: "bands_ordered pages \<and> (\<forall>p \<in> set pages. upright p)
    \<and> (in_gap pages y \<or> beyond_last pages y)"
  have "\<forall>p \<in> set pages. \<not> in_band p y"
    using gap_or_beyond_no_band [OF assms] a by blast
  then show f: "findPageForY pages y = Some (last pages)"
    using assms findPageForY_none_in_band by blast
  show "\<exists>r. tldrawToPdfCoords pages x y = Inr r \<and> c_page r = pageNum (last pages)"
    using f by (rule tldrawToPdfCoords_page)
next
  assume "\<forall>p \<in> set pages. \<not> in_band p y"
  then show f: "findPageForY pages y = Some (last pages)"
    using assms findPageForY_none_in_band by blast
  show "\<exists>r. tldrawToPdfCoords pages x y = Inr r \<and> c_page r = pageNum (last pages)"
    using f by (rule tldrawToPdfCoords_page)
next
  show "\<exists>r. tldrawToPdfCoords pages x y = Inr r"
    using assms by (rule tldrawToPdfCoords_total)
qed

theorem findPageForY_first_match_gap_last_witness:
  "getPageDimensions_lookup [''<svg>'', ''<svg>''] \<noteq> []
   \<and> in_band (getPageDimensions_lookup [''<svg>'', ''<svg>''] ! 1) (Fin 1200)
   \<and> findPageForY (getPageDimensions_lookup [''<svg>'', ''<svg>'']) (Fin 1200)
       = Some (getPageDimensions_lookup [''<svg>'', ''<svg>''] ! 1)
   \<and> (\<exists>r. tldrawToPdfCoords (getPageDimensions_lookup [''<svg>'', ''<svg>''])
              (Fin 40) (Fin 1200) = Inr r \<and> c_page r = 2)
   \<and> bands_ordered (getPageDimensions_lookup [''<svg>'', ''<svg>''])
   \<and> list_all upright (getPageDimensions_lookup [''<svg>'', ''<svg>''])
   \<and> in_gap (getPageDimensions_lookup [''<svg>'', ''<svg>'']) (Fin 1080)
   \<and> findPageForY (getPageDimensions_lookup [''<svg>'', ''<svg>'']) (Fin 1080)
       = Some (last (getPageDimensions_lookup [''<svg>'', ''<svg>'']))
   \<and> (\<exists>r. tldrawToPdfCoords (getPageDimensions_lookup [''<svg>'', ''<svg>''])
              (Fin 40) (Fin 1080) = Inr r \<and> c_page r = 2)
   \<and> beyond_last (getPageDimensions_lookup [''<svg>'', ''<svg>'']) (Fin 5000)
   \<and> findPageForY (getPageDimensions_lookup [''<svg>'', ''<svg>'']) (Fin 5000)
       = Some (last (getPageDimensions_lookup [''<svg>'', ''<svg>'']))
   \<and> (\<exists>r. tldrawToPdfCoords (getPageDimensions_lookup [''<svg>'', ''<svg>''])
              (Fin 40) (Fin 5000) = Inr r \<and> c_page r = 2)"
proof -
  let ?ps = "getPageDimensions_lookup [''<svg>'', ''<svg>'']"
  have ne: "?ps \<noteq> []" by (simp add: two_default_pages)
  have band: "in_band (?ps ! 1) (Fin 1200)" by (simp add: two_default_pages in_band_def)
  have inside: "1 < length ?ps \<and> in_band (?ps ! 1) (Fin 1200)
      \<and> (\<forall>j < 1. \<not> in_band (?ps ! j) (Fin 1200))"
    by (simp add: two_default_pages in_band_def)
  have ord: "bands_ordered ?ps" by (simp add: two_default_pages bands_ordered_def)
  have up: "list_all upright ?ps" by (simp add: two_default_pages upright_def)
  then have up': "\<forall>p \<in> set ?ps. upright p" by (simp add: list_all_iff)
  have "Suc 0 < length ?ps \<and> jge (Fin 1080) (bottomY (?ps ! 0))
      \<and> jlt (Fin 1080) (topY (?ps ! Suc 0))"
    by (simp add: two_default_pages)
  then have gap: "in_gap ?ps (Fin 1080)" unfolding in_gap_def by blast
  have beyond: "beyond_last ?ps (Fin 5000)"
    by (simp add: two_default_pages beyond_last_def)
  have two: "pageNum (?ps ! 1) = 2" "pageNum (last ?ps) = 2"
    by (simp_all add: two_default_pages)
  from findPageForY_first_match_gap_last [OF ne, of "Fin 1200" "Fin 40"] inside
  have a: "findPageForY ?ps (Fin 1200) = Some (?ps ! 1)"
    and a': "\<exists>r. tldrawToPdfCoords ?ps (Fin 40) (Fin 1200) = Inr r
               \<and> c_page r = pageNum (?ps ! 1)" by blast+
  from findPageForY_first_match_gap_last [OF ne, of "Fin 1080" "Fin 40"] ord up' gap
  have b: "findPageForY ?ps (Fin 1080) = Some (last ?ps)"
    and b': "\<exists>r. tldrawToPdfCoords ?ps (Fin 40) (Fin 1080) = Inr r
               \<and> c_page r = pageNum (last ?ps)" by blast+
  from findPageForY_first_match_gap_last [OF ne, of "Fin 5000" "Fin 40"] ord up' beyond
  have c: "findPageForY ?ps (Fin 5000) = Some (last ?ps)"
    and c': "\<exists>r. tldrawToPdfCoords ?ps (Fin 40) (Fin 5000) = Inr r
               \<and> c_page r = pageNum (last ?ps)" by blast+
  from a' b' c' two have
    "\<exists>r. tldrawToPdfCoords ?ps (Fin 40) (Fin 1200) = Inr r \<and> c_page r = 2"
    "\<exists>r. tldrawToPdfCoords ?ps (Fin 40) (Fin 1080) = Inr r \<and> c_page r = 2"
    "\<exists>r. tldrawToPdfCoords ?ps (Fin 40) (Fin 5000) = Inr r \<and> c_page r = 2"
    by simp_all
  with ne band a ord up gap b beyond c show ?thesis by blast
qed

section \<open>A point before the first page\<close>

lemma before_first_in_no_band:
  assumes "tops_sorted ps" "ps \<noteq> []" "jlt y (topY (hd ps))" "k < length ps"
  shows "\<not> in_band (ps ! k) y"
proof
  assume "in_band (ps ! k) y"
  then have ge: "jge y (topY (ps ! k))" by (simp add: in_band_def)
  have hd: "hd ps = ps ! 0" using assms(2) by (simp add: hd_conv_nth)
  show False
  proof (cases k)
    case 0
    then show False using ge assms(3) hd jlt_jge_same by metis
  next
    case (Suc m)
    then have "fin_le (topY (ps ! 0)) (topY (ps ! k))"
      using assms(1,4) by (simp add: tops_sorted_def sorted_wrt_iff_nth_less)
    then show False using ge assms(3) hd not_below_and_above by metis
  qed
qed

text \<open>
  Claim C9, as stated: for every page list that is not empty, a point \<open>y\<close> before the top
  of the first page goes to the last page. This fails on the pages of
  \<open>negative_height_files\<close>: the point \<open>-100\<close> is before the top \<open>0\<close> of page 1 and inside
  the band of page 3, and the list has four pages.
\<close>

theorem before_first_page_counterexample:
  "getPageDimensions_lookup negative_height_files \<noteq> []
   \<and> jlt (Fin (- 100)) (topY (hd (getPageDimensions_lookup negative_height_files)))
   \<and> findPageForY (getPageDimensions_lookup negative_height_files) (Fin (- 100))
       = Some (getPageDimensions_lookup negative_height_files ! 2)
   \<and> findPageForY (getPageDimensions_lookup negative_height_files) (Fin (- 100))
       \<noteq> Some (last (getPageDimensions_lookup negative_height_files))"
  by (simp add: negative_height_pages findPageForY_def)

text \<open>
  Claim C9, amended: for every page list that is not empty and whose tops are finite and
  do not decrease in list order, a point \<open>y\<close> before the top of the first page is in no
  band, and \<^verbatim>\<open>findPageForY\<close> returns the last page of the list.
\<close>

theorem findPageForY_before_first_page:
  assumes "pages \<noteq> []" "tops_sorted pages" "jlt y (topY (hd pages))"
  shows "findPageForY pages y = Some (last pages)"
proof -
  have "\<forall>k < length pages. \<not> in_band (pages ! k) y"
    using before_first_in_no_band [OF assms(2,1,3)] by blast
  then have "\<forall>p \<in> set pages. \<not> in_band p y" by (metis in_set_conv_nth)
  then show ?thesis using assms(1) by (rule findPageForY_none_in_band [rotated])
qed

theorem findPageForY_before_first_page_witness:
  "getPageDimensions_lookup [''<svg>'', ''<svg>''] \<noteq> []
   \<and> tops_sorted (getPageDimensions_lookup [''<svg>'', ''<svg>''])
   \<and> jlt (Fin (- 100)) (topY (hd (getPageDimensions_lookup [''<svg>'', ''<svg>''])))
   \<and> findPageForY (getPageDimensions_lookup [''<svg>'', ''<svg>'']) (Fin (- 100))
       = Some (last (getPageDimensions_lookup [''<svg>'', ''<svg>'']))
   \<and> pageNum (last (getPageDimensions_lookup [''<svg>'', ''<svg>''])) = 2"
proof -
  let ?ps = "getPageDimensions_lookup [''<svg>'', ''<svg>'']"
  have ne: "?ps \<noteq> []" by (simp add: two_default_pages)
  have srt: "tops_sorted ?ps" by (simp add: two_default_pages tops_sorted_def)
  have lt: "jlt (Fin (- 100)) (topY (hd ?ps))" by (simp add: two_default_pages)
  have two: "pageNum (last ?ps) = 2" by (simp add: two_default_pages)
  from findPageForY_before_first_page [OF ne srt lt] ne srt lt two show ?thesis by blast
qed

section \<open>Document to canvas: the page range\<close>

text \<open>
  Claim C5. For a page list of \<open>N\<close> pages and a page number \<open>p\<close>, \<^verbatim>\<open>pdfToTldrawCoords\<close>
  throws \<^verbatim>\<open>Page p not found\<close> when \<open>p = 0\<close> or \<open>p > N\<close>, and returns a coordinate when
  \<open>1 \<le> p \<le> N\<close>.
\<close>

theorem pdfToTldrawCoords_page_range:
  "((p = 0 \<or> length pages < p) \<longrightarrow>
      pdfToTldrawCoords pages (Fin (real p)) x y = Inl (PageNotFound (Fin (real p))))
   \<and> ((1 \<le> p \<and> p \<le> length pages) \<longrightarrow>
        (\<exists>r. pdfToTldrawCoords pages (Fin (real p)) x y = Inr r))"
  by (auto simp: pdfToTldrawCoords_def js_index_nat Let_def)

theorem pdfToTldrawCoords_page_range_witness:
  "pdfToTldrawCoords (getPageDimensions_reverse [''<svg>'', ''<svg>'']) (Fin (real 0))
       (Fin 30) (Fin 76) = Inl (PageNotFound (Fin (real 0)))
   \<and> pdfToTldrawCoords (getPageDimensions_reverse [''<svg>'', ''<svg>'']) (Fin (real 3))
       (Fin 30) (Fin 76) = Inl (PageNotFound (Fin (real 3)))
   \<and> (\<exists>r. pdfToTldrawCoords (getPageDimensions_reverse [''<svg>'', ''<svg>''])
              (Fin (real 2)) (Fin 30) (Fin 76) = Inr r)"
proof -
  let ?ps = "getPageDimensions_reverse [''<svg>'', ''<svg>'']"
  have len: "length ?ps = 2" by (simp add: getPageDimensions_reverse_def parse_defs)
  from pdfToTldrawCoords_page_range [of 0 ?ps "Fin 30" "Fin 76"]
  have a: "pdfToTldrawCoords ?ps (Fin (real 0)) (Fin 30) (Fin 76)
      = Inl (PageNotFound (Fin (real 0)))" by simp
  from pdfToTldrawCoords_page_range [of 3 ?ps "Fin 30" "Fin 76"] len
  have b: "pdfToTldrawCoords ?ps (Fin (real 3)) (Fin 30) (Fin 76)
      = Inl (PageNotFound (Fin (real 3)))" by simp
  from pdfToTldrawCoords_page_range [of 2 ?ps "Fin 30" "Fin 76"] len
  have c: "\<exists>r. pdfToTldrawCoords ?ps (Fin (real 2)) (Fin 30) (Fin 76) = Inr r" by simp
  from a b c show ?thesis by blast
qed

section \<open>The loop of the resolver\<close>

lemma readPage_lookup_fields:
  "pageNum (readPage_lookup pn tp c) = pn"
  "topY (readPage_lookup pn tp c) = tp"
  "scale (readPage_lookup pn tp c) = jdiv TARGET_WIDTH (origWidth (readPage_lookup pn tp c))"
  "scaledHeight (readPage_lookup pn tp c) =
     jmul (origHeight (readPage_lookup pn tp c)) (scale (readPage_lookup pn tp c))"
  "bottomY (readPage_lookup pn tp c) = jadd tp (scaledHeight (readPage_lookup pn tp c))"
  by (simp_all add: readPage_lookup_def Let_def split: prod.splits)

lemma readPage_truncate:
  "page.truncate (readPage_lookup pn tp c) = fst (readPage_reverse pn tp c)"
  "scaledHeight (readPage_lookup pn tp c) = snd (readPage_reverse pn tp c)"
  by (simp_all add: readPage_lookup_def readPage_reverse_def page.truncate_def Let_def
      split: prod.splits)

lemma pagesFrom_truncate:
  "map page.truncate (pagesFrom_lookup pn tp cs) = pagesFrom_reverse pn tp cs"
proof (induction cs arbitrary: pn tp)
  case Nil
  show ?case by simp
next
  case (Cons c cs)
  obtain p sh where r: "readPage_reverse pn tp c = (p, sh)"
    by (cases "readPage_reverse pn tp c")
  have t: "page.truncate (readPage_lookup pn tp c) = p"
    and s: "scaledHeight (readPage_lookup pn tp c) = sh"
    using readPage_truncate [of pn tp c] r by simp_all
  show ?case using Cons.IH t s r by (simp add: Let_def)
qed




section \<open>The default page size\<close>



section \<open>The two resolvers\<close>

text \<open>
  Claim C10. The resolver of \<^verbatim>\<open>synctex-lookup.mjs\<close> and the resolver of
  \<^verbatim>\<open>synctex-reverse.mjs\<close> give, for the same page files, page lists of the same length
  whose pages agree on \<^verbatim>\<open>pageNum\<close>, \<^verbatim>\<open>origWidth\<close>, \<^verbatim>\<open>origHeight\<close>,
  \<^verbatim>\<open>viewBoxMinX\<close>, \<^verbatim>\<open>viewBoxMinY\<close>, \<^verbatim>\<open>scale\<close>, \<^verbatim>\<open>top\<close> and
  \<^verbatim>\<open>bottom\<close>: the second list is the first one without the two fields
  \<^verbatim>\<open>scaledWidth\<close> and \<^verbatim>\<open>scaledHeight\<close>.
\<close>

theorem getPageDimensions_agree:
  "map page.truncate (getPageDimensions_lookup files) = getPageDimensions_reverse files
   \<and> length (getPageDimensions_lookup files) = length (getPageDimensions_reverse files)
   \<and> (i < length (getPageDimensions_lookup files) \<longrightarrow>
        pageNum (getPageDimensions_lookup files ! i) = pageNum (getPageDimensions_reverse files ! i)
      \<and> origWidth (getPageDimensions_lookup files ! i)
          = origWidth (getPageDimensions_reverse files ! i)
      \<and> origHeight (getPageDimensions_lookup files ! i)
          = origHeight (getPageDimensions_reverse files ! i)
      \<and> viewBoxMinX (getPageDimensions_lookup files ! i)
          = viewBoxMinX (getPageDimensions_reverse files ! i)
      \<and> viewBoxMinY (getPageDimensions_lookup files ! i)
          = viewBoxMinY (getPageDimensions_reverse files ! i)
      \<and> scale (getPageDimensions_lookup files ! i) = scale (getPageDimensions_reverse files ! i)
      \<and> topY (getPageDimensions_lookup files ! i) = topY (getPageDimensions_reverse files ! i)
      \<and> bottomY (getPageDimensions_lookup files ! i)
          = bottomY (getPageDimensions_reverse files ! i))"
proof -
  let ?l = "getPageDimensions_lookup files" and ?r = "getPageDimensions_reverse files"
  have eq: "map page.truncate ?l = ?r"
    by (simp add: getPageDimensions_lookup_def getPageDimensions_reverse_def pagesFrom_truncate)
  then have len: "length ?l = length ?r" by (metis length_map)
  have "i < length ?l \<Longrightarrow> ?r ! i = page.truncate (?l ! i)"
    using eq by (metis nth_map)
  then show ?thesis using eq len by (simp add: page.truncate_def)
qed

theorem getPageDimensions_agree_witness:
  "2 < length (getPageDimensions_lookup negative_height_files)
   \<and> map page.truncate (getPageDimensions_lookup negative_height_files)
       = getPageDimensions_reverse negative_height_files
   \<and> topY (getPageDimensions_lookup negative_height_files ! 2)
       = topY (getPageDimensions_reverse negative_height_files ! 2)
   \<and> bottomY (getPageDimensions_lookup negative_height_files ! 2)
       = bottomY (getPageDimensions_reverse negative_height_files ! 2)"
proof -
  have len: "2 < length (getPageDimensions_lookup negative_height_files)"
    by (simp add: negative_height_pages)
  from getPageDimensions_agree [of negative_height_files 2] len show ?thesis by blast
qed

section \<open>The outcomes of the synctex call\<close>

lemma fold_storeLine_no_match:
  "list_all (\<lambda>l. match_line l = None) ls \<Longrightarrow> fold storeLine ls result = result"
  by (induction ls arbitrary: result) (simp_all add: storeLine_def)

lemma parseSynctexOutput_no_match:
  "list_all (\<lambda>l. match_line l = None) (split_lines out) \<Longrightarrow> parseSynctexOutput out = Map.empty"
  by (simp add: parseSynctexOutput_def fold_storeLine_no_match)

lemma sourceFound_keys:
  "sourceFound result \<Longrightarrow> result ''input'' \<noteq> None \<and> result ''line'' \<noteq> None"
proof -
  have "val_truthy v \<Longrightarrow> v \<noteq> None" for v by (cases v) simp_all
  moreover assume "sourceFound result"
  ultimately show ?thesis unfolding sourceFound_def by blast
qed

text \<open>
  Claim C7, as the spec states it: a response with no recognised line gives the not-found
  outcome, and a failed process with no parseable output gives a process error that differs
  from it. This fails for a process that fails after it has printed a line that is not a
  \<open>key:value\<close> line: \<^verbatim>\<open>e.stdout\<close> is not empty, so it is parsed, and the result is the
  empty object, the same as for a process that prints this line and exits with code 0.
\<close>

theorem failed_process_unparseable_output_counterexample:
  "list_all (\<lambda>l. match_line l = None) (split_lines ''This is SyncTeX'')
   \<and> synctexLookup (\<lambda>pn px py. Threw (Some ''This is SyncTeX'') ''Command failed'')
        1 (Fin 0) (Fin 0) = Map.empty
   \<and> synctexLookup (\<lambda>pn px py. Threw (Some ''This is SyncTeX'') ''Command failed'')
        1 (Fin 0) (Fin 0)
      = synctexLookup (\<lambda>pn px py. Exited ''This is SyncTeX'') 1 (Fin 0) (Fin 0)"
proof -
  have no: "list_all (\<lambda>l. match_line l = None) (split_lines ''This is SyncTeX'')"
    by (simp add: match_line_def is_word_def)
  then have "parseSynctexOutput ''This is SyncTeX'' = Map.empty"
    by (rule parseSynctexOutput_no_match)
  then show ?thesis using no by (simp add: synctexLookup_def)
qed

text \<open>
  Claim C7, amended: a response with no recognised \<open>key:value\<close> line gives the empty
  object, for which \<^verbatim>\<open>main\<close> finds no source; a process that fails with no standard
  output (the binary is absent, or it printed nothing) gives the object
  \<^verbatim>\<open>{error: message}\<close>, which is not the empty object and for which \<^verbatim>\<open>main\<close> finds
  no source either; a process that fails with some standard output is treated as one that
  exits with code 0 and the same output; and \<^verbatim>\<open>main\<close> finds a source only when the keys
  \<^verbatim>\<open>input\<close> and \<^verbatim>\<open>line\<close> are present, whatever the exit code was.
\<close>

theorem synctexLookup_outcomes:
  "(run pn px py = Exited out \<and> list_all (\<lambda>l. match_line l = None) (split_lines out) \<longrightarrow>
      synctexLookup run pn px py = Map.empty \<and> \<not> sourceFound (synctexLookup run pn px py))
   \<and> (run pn px py = Threw stdout message \<and> (stdout = None \<or> stdout = Some []) \<longrightarrow>
        synctexLookup run pn px py = [''error'' \<mapsto> JStr message]
        \<and> synctexLookup run pn px py \<noteq> Map.empty
        \<and> \<not> sourceFound (synctexLookup run pn px py))
   \<and> (run pn px py = Threw (Some out) message \<and> out \<noteq> [] \<longrightarrow>
        synctexLookup run pn px py = parseSynctexOutput out)
   \<and> (sourceFound (synctexLookup run pn px py) \<longrightarrow>
        synctexLookup run pn px py ''input'' \<noteq> None
        \<and> synctexLookup run pn px py ''line'' \<noteq> None)"
proof (intro conjI impI)
  assume a: "run pn px py = Exited out \<and> list_all (\<lambda>l. match_line l = None) (split_lines out)"
  then show e: "synctexLookup run pn px py = Map.empty"
    by (simp add: synctexLookup_def parseSynctexOutput_no_match)
  show "\<not> sourceFound (synctexLookup run pn px py)"
    unfolding e by (simp add: sourceFound_def)
next
  assume a: "run pn px py = Threw stdout message \<and> (stdout = None \<or> stdout = Some [])"
  then show e: "synctexLookup run pn px py = [''error'' \<mapsto> JStr message]"
    by (auto simp: synctexLookup_def)
  show "synctexLookup run pn px py \<noteq> Map.empty"
    unfolding e by simp
  show "\<not> sourceFound (synctexLookup run pn px py)"
    unfolding e by (simp add: sourceFound_def)
next
  assume "run pn px py = Threw (Some out) message \<and> out \<noteq> []"
  then show "synctexLookup run pn px py = parseSynctexOutput out"
    by (simp add: synctexLookup_def)
next
  assume "sourceFound (synctexLookup run pn px py)"
  then show "synctexLookup run pn px py ''input'' \<noteq> None"
    and "synctexLookup run pn px py ''line'' \<noteq> None"
    using sourceFound_keys by blast+
qed

theorem synctexLookup_outcomes_witness:
  "synctexLookup (\<lambda>pn px py. Exited ''This is SyncTeX'') 1 (Fin 0) (Fin 0) = Map.empty
   \<and> synctexLookup (\<lambda>pn px py. Threw None ''spawn ENOENT'') 1 (Fin 0) (Fin 0)
       = [''error'' \<mapsto> JStr ''spawn ENOENT'']
   \<and> synctexLookup (\<lambda>pn px py. Threw None ''spawn ENOENT'') 1 (Fin 0) (Fin 0) \<noteq> Map.empty
   \<and> synctexLookup
        (\<lambda>pn px py. Threw (Some (''Input:/a.tex'' @ [CHR 0x0A] @ ''Line:42'')) ''Command failed'')
        1 (Fin 0) (Fin 0)
       = parseSynctexOutput (''Input:/a.tex'' @ [CHR 0x0A] @ ''Line:42'')
   \<and> sourceFound (synctexLookup
        (\<lambda>pn px py. Threw (Some (''Input:/a.tex'' @ [CHR 0x0A] @ ''Line:42'')) ''Command failed'')
        1 (Fin 0) (Fin 0))
   \<and> synctexLookup
        (\<lambda>pn px py. Threw (Some (''Input:/a.tex'' @ [CHR 0x0A] @ ''Line:42'')) ''Command failed'')
        1 (Fin 0) (Fin 0) ''line'' \<noteq> None"
proof -
  let ?quiet = "\<lambda>pn px py. Exited ''This is SyncTeX''"
  let ?absent = "\<lambda>pn px py. Threw None ''spawn ENOENT''"
  let ?out = "''Input:/a.tex'' @ [CHR 0x0A] @ ''Line:42''"
  let ?failed = "\<lambda>pn px py. Threw (Some ?out) ''Command failed''"
  have no: "list_all (\<lambda>l. match_line l = None) (split_lines ''This is SyncTeX'')"
    by (simp add: match_line_def is_word_def)
  from synctexLookup_outcomes [of ?quiet 1 "Fin 0" "Fin 0" "''This is SyncTeX''"] no
  have 1: "synctexLookup ?quiet 1 (Fin 0) (Fin 0) = Map.empty" by simp
  from synctexLookup_outcomes [of ?absent 1 "Fin 0" "Fin 0" "[]" None "''spawn ENOENT''"]
  have 2: "synctexLookup ?absent 1 (Fin 0) (Fin 0) = [''error'' \<mapsto> JStr ''spawn ENOENT'']"
    and 3: "synctexLookup ?absent 1 (Fin 0) (Fin 0) \<noteq> Map.empty" by simp_all
  have ne: "?out \<noteq> []" by simp
  have run: "?failed 1 (Fin 0) (Fin 0) = Threw (Some ?out) ''Command failed''" by (rule refl)
  from synctexLookup_outcomes [of ?failed 1 "Fin 0" "Fin 0" ?out None "''Command failed''"]
    run ne
  have 4: "synctexLookup ?failed 1 (Fin 0) (Fin 0) = parseSynctexOutput ?out"
    and keys: "sourceFound (synctexLookup ?failed 1 (Fin 0) (Fin 0)) \<longrightarrow>
      synctexLookup ?failed 1 (Fin 0) (Fin 0) ''line'' \<noteq> None" by blast+
  have 5: "sourceFound (synctexLookup ?failed 1 (Fin 0) (Fin 0))"
    unfolding 4 using parse_input_and_line by (simp add: sourceFound_def)
  from 1 2 3 4 5 keys show ?thesis by blast
qed

section \<open>No pages\<close>

lemma js_index_Nil: "js_index [] k = None"
  by (cases k) simp_all

lemma tldrawToPdfCoords_Nil: "tldrawToPdfCoords [] x y = Inl TypeError"
  by (simp add: tldrawToPdfCoords_def findPageForY_def js_index_Nil)

lemma pdfToTldrawCoords_Nil: "pdfToTldrawCoords [] pn px py = Inl (PageNotFound pn)"
  by (simp add: pdfToTldrawCoords_def js_index_Nil)

lemma lookupPoint_Nil: "lookupPoint [] run x y = Inl TypeError"
  by (simp add: lookupPoint_def tldrawToPdfCoords_Nil)

lemma lookupAnnotations_Nil:
  "anns \<noteq> [] \<Longrightarrow> lookupAnnotations [] run anns = ([], Uncaught TypeError)"
  by (cases anns) (simp_all add: lookupAnnotation_def lookupPoint_Nil)

lemma canvasPoint_Nil:
  "canvasPoint ([] :: page_scaled list) args =
     (if arg args 0 = Some ''--page'' then Inl TypeError
      else Inr (parseFloatArg (arg args 0), parseFloatArg (arg args 1)))"
  by (simp add: canvasPoint_def js_index_Nil)

lemma main_no_pages:
  assumes "pdfExists e" "synctexExists e" "svgFiles e = []"
  shows "main e args =
     (if arg args 0 = Some ''--from-snapshot'' then
        (case readAnnotationsFromSnapshot (snapshotFile e) of
           Inl err \<Rightarrow> ([LoadedPages 0], Uncaught err)
         | Inr anns \<Rightarrow>
             if anns = [] then ([LoadedPages 0, FoundAnnotations 0], Returned)
             else ([LoadedPages 0, FoundAnnotations (length anns)], Uncaught TypeError))
      else if arg args 0 = Some ''--page'' then ([LoadedPages 0], Uncaught TypeError)
      else if parseFloatArg (arg args 0) = NaN \<or> parseFloatArg (arg args 1) = NaN
        then ([LoadedPages 0], Exit1 UsageError)
      else ([LoadedPages 0], Uncaught TypeError))"
proof (cases "arg args 0 = Some ''--from-snapshot''")
  case True
  show ?thesis
  proof (cases "readAnnotationsFromSnapshot (snapshotFile e)")
    case (Inl err)
    then show ?thesis
      using True assms by (simp add: main_def getPageDimensions_lookup_def Let_def)
  next
    case (Inr anns)
    show ?thesis
    proof (cases "anns = []")
      case True
      then show ?thesis
        using \<open>arg args 0 = Some ''--from-snapshot''\<close> Inr assms
        by (simp add: main_def getPageDimensions_lookup_def Let_def)
    next
      case False
      then have "lookupAnnotations ([] :: page_scaled list) (runSynctex e) anns
          = ([], Uncaught TypeError)"
        by (rule lookupAnnotations_Nil)
      then show ?thesis
        using \<open>arg args 0 = Some ''--from-snapshot''\<close> Inr False assms
        by (simp add: main_def getPageDimensions_lookup_def Let_def)
    qed
  qed
next
  case False
  show ?thesis
    using False assms
    by (simp add: main_def getPageDimensions_lookup_def canvasPoint_Nil lookupPoint_Nil Let_def)
qed

text \<open>
  Claim C6, as the spec states it: when the resolver finds no page, this is reported as an
  error and no coordinate is converted on the empty list. This fails: the resolver returns
  the empty list and \<^verbatim>\<open>main\<close> goes on. With \<^verbatim>\<open>--from-snapshot\<close> and no snapshot
  file it returns with no error; with two coordinates it calls \<^verbatim>\<open>tldrawToPdfCoords\<close> on
  the empty list, where reading \<^verbatim>\<open>page.top\<close> of \<^verbatim>\<open>undefined\<close> throws a
  \<^verbatim>\<open>TypeError\<close>.
\<close>

theorem no_pages_counterexample:
  "getPageDimensions_lookup [] = []
   \<and> main \<lparr>pdfExists = True, synctexExists = True, svgFiles = [], snapshotFile = NoSnapshot,
            runSynctex = (\<lambda>pn px py. Exited [])\<rparr> [''--from-snapshot'']
     = ([LoadedPages 0, FoundAnnotations 0], Returned)
   \<and> main \<lparr>pdfExists = True, synctexExists = True, svgFiles = [], snapshotFile = NoSnapshot,
            runSynctex = (\<lambda>pn px py. Exited [])\<rparr> [''10'', ''20'']
     = ([LoadedPages 0], Uncaught TypeError)
   \<and> tldrawToPdfCoords (getPageDimensions_lookup []) (Fin 10) (Fin 20) = Inl TypeError"
  by (simp add: main_def getPageDimensions_lookup_def readAnnotationsFromSnapshot_def
      arg_def canvasPoint_def parseFloatArg_def parseFloat_def parse_unsigned_def
      parse_exponent_def digits_val_def digit_val_def is_digit_def is_space_def
      lookupPoint_Nil tldrawToPdfCoords_Nil Let_def)

text \<open>
  Claim C6, amended: when the resolver finds no page it returns the empty list and
  reports nothing. \<^verbatim>\<open>tldrawToPdfCoords\<close> on the empty list throws a \<^verbatim>\<open>TypeError\<close> and
  \<^verbatim>\<open>pdfToTldrawCoords\<close> throws \<^verbatim>\<open>Page p not found\<close> for every page number. When the PDF
  and its synctex file exist and there is no page file, \<^verbatim>\<open>main\<close> ends as follows. In
  the snapshot mode: with the exception of \<^verbatim>\<open>readAnnotationsFromSnapshot\<close> when reading
  the snapshot throws (the \<^verbatim>\<open>SyntaxError\<close> of \<^verbatim>\<open>JSON.parse\<close> for a file that is not
  JSON); with a normal return when the snapshot gives no annotation (there is no snapshot
  file, for one); with the \<^verbatim>\<open>TypeError\<close> of the conversion, at the first annotation,
  otherwise. With \<^verbatim>\<open>--page\<close>: with the \<^verbatim>\<open>TypeError\<close> of reading \<^verbatim>\<open>top\<close> of the
  page, which is \<^verbatim>\<open>undefined\<close>. With two coordinates: with the usage error when one of
  them is not a number, and with the \<^verbatim>\<open>TypeError\<close> of the conversion otherwise.
\<close>

theorem no_pages_behaviour:
  assumes "pdfExists e" "synctexExists e" "svgFiles e = []"
  shows "getPageDimensions_lookup [] = []
       \<and> getPageDimensions_reverse [] = []
       \<and> tldrawToPdfCoords (getPageDimensions_lookup []) x y = Inl TypeError
       \<and> pdfToTldrawCoords (getPageDimensions_reverse []) pn px py = Inl (PageNotFound pn)
       \<and> readAnnotationsFromSnapshot NoSnapshot = Inr []
       \<and> readAnnotationsFromSnapshot NotJson = Inl SyntaxError
       \<and> (arg args 0 = Some ''--from-snapshot''
            \<and> readAnnotationsFromSnapshot (snapshotFile e) = Inl err \<longrightarrow>
            main e args = ([LoadedPages 0], Uncaught err))
       \<and> (arg args 0 = Some ''--from-snapshot''
            \<and> readAnnotationsFromSnapshot (snapshotFile e) = Inr [] \<longrightarrow>
            main e args = ([LoadedPages 0, FoundAnnotations 0], Returned))
       \<and> (arg args 0 = Some ''--from-snapshot''
            \<and> readAnnotationsFromSnapshot (snapshotFile e) = Inr anns \<and> anns \<noteq> [] \<longrightarrow>
            main e args
              = ([LoadedPages 0, FoundAnnotations (length anns)], Uncaught TypeError))
       \<and> (arg args 0 = Some ''--page'' \<longrightarrow> main e args = ([LoadedPages 0], Uncaught TypeError))
       \<and> (arg args 0 \<noteq> Some ''--from-snapshot'' \<and> arg args 0 \<noteq> Some ''--page'' \<longrightarrow>
            main e args =
              ([LoadedPages 0],
               if parseFloatArg (arg args 0) = NaN \<or> parseFloatArg (arg args 1) = NaN
               then Exit1 UsageError else Uncaught TypeError))"
proof (intro conjI impI)
  show "getPageDimensions_lookup [] = []"
    by (simp add: getPageDimensions_lookup_def)
  show "getPageDimensions_reverse [] = []"
    by (simp add: getPageDimensions_reverse_def)
  show "tldrawToPdfCoords (getPageDimensions_lookup []) x y = Inl TypeError"
    by (simp add: getPageDimensions_lookup_def tldrawToPdfCoords_Nil)
  show "pdfToTldrawCoords (getPageDimensions_reverse []) pn px py = Inl (PageNotFound pn)"
    by (simp add: getPageDimensions_reverse_def pdfToTldrawCoords_Nil)
  show "readAnnotationsFromSnapshot NoSnapshot = Inr []"
    by (simp add: readAnnotationsFromSnapshot_def)
  show "readAnnotationsFromSnapshot NotJson = Inl SyntaxError"
    by (simp add: readAnnotationsFromSnapshot_def)
next
  assume "arg args 0 = Some ''--from-snapshot''
    \<and> readAnnotationsFromSnapshot (snapshotFile e) = Inl err"
  then show "main e args = ([LoadedPages 0], Uncaught err)"
    by (simp add: main_no_pages [OF assms])
next
  assume "arg args 0 = Some ''--from-snapshot''
    \<and> readAnnotationsFromSnapshot (snapshotFile e) = Inr []"
  then show "main e args = ([LoadedPages 0, FoundAnnotations 0], Returned)"
    by (simp add: main_no_pages [OF assms])
next
  assume "arg args 0 = Some ''--from-snapshot''
    \<and> readAnnotationsFromSnapshot (snapshotFile e) = Inr anns \<and> anns \<noteq> []"
  then show "main e args
      = ([LoadedPages 0, FoundAnnotations (length anns)], Uncaught TypeError)"
    by (simp add: main_no_pages [OF assms])
next
  assume "arg args 0 = Some ''--page''"
  then show "main e args = ([LoadedPages 0], Uncaught TypeError)"
    by (simp add: main_no_pages [OF assms])
next
  assume "arg args 0 \<noteq> Some ''--from-snapshot'' \<and> arg args 0 \<noteq> Some ''--page''"
  then show "main e args =
      ([LoadedPages 0],
       if parseFloatArg (arg args 0) = NaN \<or> parseFloatArg (arg args 1) = NaN
       then Exit1 UsageError else Uncaught TypeError)"
    by (simp add: main_no_pages [OF assms])
qed

theorem no_pages_behaviour_witness:
  "getPageDimensions_lookup [] = []
   \<and> tldrawToPdfCoords (getPageDimensions_lookup []) (Fin 10) (Fin 20) = Inl TypeError
   \<and> pdfToTldrawCoords (getPageDimensions_reverse []) (Fin 1) (Fin 30) (Fin 76)
       = Inl (PageNotFound (Fin 1))
   \<and> main (no_pages_env NoSnapshot) [''--from-snapshot'']
       = ([LoadedPages 0, FoundAnnotations 0], Returned)
   \<and> main (no_pages_env NotJson) [''--from-snapshot''] = ([LoadedPages 0], Uncaught SyntaxError)
   \<and> main (no_pages_env (Parsed JsNull)) [''--from-snapshot'']
       = ([LoadedPages 0], Uncaught NullTypeError)
   \<and> main (no_pages_env (Parsed one_shape_snapshot)) [''--from-snapshot'']
       = ([LoadedPages 0, FoundAnnotations 1], Uncaught TypeError)
   \<and> main (no_pages_env NoSnapshot) [''--page'', ''1'', ''10'', ''20'']
       = ([LoadedPages 0], Uncaught TypeError)
   \<and> main (no_pages_env NoSnapshot) [''10'', ''20''] = ([LoadedPages 0], Uncaught TypeError)
   \<and> main (no_pages_env NoSnapshot) [''10''] = ([LoadedPages 0], Exit1 UsageError)"
proof -
  have e: "pdfExists (no_pages_env f)" "synctexExists (no_pages_env f)"
    "svgFiles (no_pages_env f) = []" "snapshotFile (no_pages_env f) = f" for f
    by (simp_all add: no_pages_env_def)
  have snap: "arg [''--from-snapshot''] 0 = Some ''--from-snapshot''" by (simp add: arg_def)
  have pg: "arg [''--page'', ''1'', ''10'', ''20''] 0 = Some ''--page''" by (simp add: arg_def)
  have two: "arg [''10'', ''20''] 0 \<noteq> Some ''--from-snapshot''
      \<and> arg [''10'', ''20''] 0 \<noteq> Some ''--page''
      \<and> parseFloatArg (arg [''10'', ''20''] 0) \<noteq> NaN
      \<and> parseFloatArg (arg [''10'', ''20''] 1) \<noteq> NaN"
    by (simp add: arg_def parseFloatArg_def parseFloat_def parse_unsigned_def
        parse_exponent_def digits_val_def digit_val_def is_digit_def is_space_def Let_def)
  have one_arg: "arg [''10''] 0 \<noteq> Some ''--from-snapshot'' \<and> arg [''10''] 0 \<noteq> Some ''--page''
      \<and> parseFloatArg (arg [''10''] 1) = NaN"
    by (simp add: arg_def parseFloatArg_def)
  have none: "readAnnotationsFromSnapshot (snapshotFile (no_pages_env NoSnapshot)) = Inr []"
    by (simp add: e readAnnotationsFromSnapshot_def)
  have notjson: "readAnnotationsFromSnapshot (snapshotFile (no_pages_env NotJson))
      = Inl SyntaxError"
    by (simp add: e readAnnotationsFromSnapshot_def)
  have null: "readAnnotationsFromSnapshot (snapshotFile (no_pages_env (Parsed JsNull)))
      = Inl NullTypeError"
    by (simp add: e readAnnotationsFromSnapshot_def)
  have one: "readAnnotationsFromSnapshot (snapshotFile (no_pages_env (Parsed one_shape_snapshot)))
      = Inr [toAnnotation (JsObject [(''typeName'', JsString ''shape''),
               (''type'', JsString ''draw''), (''x'', JsNumber (Fin 10)),
               (''y'', JsNumber (Fin 20))])]
      \<and> [toAnnotation (JsObject [(''typeName'', JsString ''shape''),
               (''type'', JsString ''draw''), (''x'', JsNumber (Fin 10)),
               (''y'', JsNumber (Fin 20))])] \<noteq> []"
    by (simp add: e readAnnotationsFromSnapshot_def one_shape_snapshot_def isAnnotation_def)
  from no_pages_behaviour [OF e(1-3), where x = "Fin 10" and y = "Fin 20" and pn = "Fin 1"
      and px = "Fin 30" and py = "Fin 76" and args = "[''--from-snapshot'']"] snap none
  have 1: "getPageDimensions_lookup [] = []"
    and 2: "tldrawToPdfCoords (getPageDimensions_lookup []) (Fin 10) (Fin 20) = Inl TypeError"
    and 3: "pdfToTldrawCoords (getPageDimensions_reverse []) (Fin 1) (Fin 30) (Fin 76)
      = Inl (PageNotFound (Fin 1))"
    and 4: "main (no_pages_env NoSnapshot) [''--from-snapshot'']
      = ([LoadedPages 0, FoundAnnotations 0], Returned)"
    by blast+
  from no_pages_behaviour [OF e(1-3), where args = "[''--from-snapshot'']"] snap notjson
  have 5: "main (no_pages_env NotJson) [''--from-snapshot'']
      = ([LoadedPages 0], Uncaught SyntaxError)"
    by blast
  from no_pages_behaviour [OF e(1-3), where args = "[''--from-snapshot'']"] snap null
  have 6: "main (no_pages_env (Parsed JsNull)) [''--from-snapshot'']
      = ([LoadedPages 0], Uncaught NullTypeError)"
    by blast
  from no_pages_behaviour [OF e(1-3), where args = "[''--from-snapshot'']"] snap one
  have "main (no_pages_env (Parsed one_shape_snapshot)) [''--from-snapshot'']
      = ([LoadedPages 0, FoundAnnotations (length
           [toAnnotation (JsObject [(''typeName'', JsString ''shape''),
               (''type'', JsString ''draw''), (''x'', JsNumber (Fin 10)),
               (''y'', JsNumber (Fin 20))])])], Uncaught TypeError)"
    by blast
  then have 7: "main (no_pages_env (Parsed one_shape_snapshot)) [''--from-snapshot'']
      = ([LoadedPages 0, FoundAnnotations 1], Uncaught TypeError)"
    by simp
  from no_pages_behaviour [OF e(1-3), where args = "[''--page'', ''1'', ''10'', ''20'']"] pg
  have 8: "main (no_pages_env NoSnapshot) [''--page'', ''1'', ''10'', ''20'']
      = ([LoadedPages 0], Uncaught TypeError)"
    by blast
  from no_pages_behaviour [OF e(1-3), where args = "[''10'', ''20'']"] two
  have 9: "main (no_pages_env NoSnapshot) [''10'', ''20''] = ([LoadedPages 0], Uncaught TypeError)"
    by simp
  from no_pages_behaviour [OF e(1-3), where args = "[''10'']"] one_arg
  have 10: "main (no_pages_env NoSnapshot) [''10''] = ([LoadedPages 0], Exit1 UsageError)"
    by simp
  from 1 2 3 4 5 6 7 8 9 10 show ?thesis by blast
qed

end
